theory Spec2Isabelle
  imports Main "HOL-Library.Word"
begin

unbundle bit_operations_syntax

section \<open>Data model of \<open>blah.cpp\<close>\<close>

text \<open>
  Vulkan and GLFW handles are opaque pointers; they are modelled as addresses, with
  \<open>VK_NULL_HANDLE\<close> the null address.
\<close>

type_synonym handle = nat

definition VK_NULL_HANDLE :: handle where
  "VK_NULL_HANDLE = 0"

text \<open>\<open>VkResult\<close> is a C enumeration; only \<open>VK_SUCCESS\<close> is ever compared against.\<close>

type_synonym VkResult = int

definition VK_SUCCESS :: VkResult where
  "VK_SUCCESS = 0"

definition VK_ERROR_EXTENSION_NOT_PRESENT :: VkResult where
  "VK_ERROR_EXTENSION_NOT_PRESENT = - 7"

text \<open>The constants at the top of the file.\<close>

definition WIDTH :: "32 word" where
  "WIDTH = 800"

definition HEIGHT :: "32 word" where
  "HEIGHT = 600"

definition validationLayers :: "string list" where
  "validationLayers = [''VK_LAYER_KHRONOS_validation'']"

text \<open>
  Names and bits that the program takes from the Vulkan headers (values as in
  \<open>vulkan_core.h\<close> and \<open>vulkan_beta.h\<close>).
\<close>

definition VK_EXT_DEBUG_UTILS_EXTENSION_NAME :: string where
  "VK_EXT_DEBUG_UTILS_EXTENSION_NAME = ''VK_EXT_debug_utils''"

definition VK_KHR_PORTABILITY_ENUMERATION_EXTENSION_NAME :: string where
  "VK_KHR_PORTABILITY_ENUMERATION_EXTENSION_NAME = ''VK_KHR_portability_enumeration''"

definition VK_KHR_GET_PHYSICAL_DEVICE_PROPERTIES_2_EXTENSION_NAME :: string where
  "VK_KHR_GET_PHYSICAL_DEVICE_PROPERTIES_2_EXTENSION_NAME =
     ''VK_KHR_get_physical_device_properties2''"

definition VK_KHR_PORTABILITY_SUBSET_EXTENSION_NAME :: string where
  "VK_KHR_PORTABILITY_SUBSET_EXTENSION_NAME = ''VK_KHR_portability_subset''"

definition VK_QUEUE_GRAPHICS_BIT :: "32 word" where
  "VK_QUEUE_GRAPHICS_BIT = 0x1"

definition VK_QUEUE_COMPUTE_BIT :: "32 word" where
  "VK_QUEUE_COMPUTE_BIT = 0x2"

record VkLayerProperties =
  layerName :: string
  specVersion :: "32 word"
  implementationVersion :: "32 word"
  description :: string

record VkQueueFamilyProperties =
  queueFlags :: "32 word"
  queueCount :: "32 word"
  timestampValidBits :: "32 word"

text \<open>\<open>struct QueueFamilyIndices\<close>: an optional 32-bit index and its completeness test.\<close>

record QueueFamilyIndices =
  graphicsFamily :: "32 word option"

definition isComplete :: "QueueFamilyIndices \<Rightarrow> bool" where
  "isComplete indices = (graphicsFamily indices \<noteq> None)"

text \<open>
  Every \<open>throw\<close> site of the program, named after the error taxonomy of the
  specification, plus the exception of \<open>std::optional::value\<close>. All of them derive from
  \<open>std::exception\<close>; \<open>what\<close> is the message the program gives each one.
\<close>

datatype error =
    ConfigurationError
  | InstanceCreationFailed
  | ExtensionUnavailable
  | NoDeviceFound
  | NoSuitableDevice
  | DeviceCreationFailed
  | BadOptionalAccess

fun what :: "error \<Rightarrow> string" where
  "what ConfigurationError = ''validation layers requested, but not available!''"
| "what InstanceCreationFailed = ''failed to create instance!''"
| "what ExtensionUnavailable = ''failed to set up debug messenger!''"
| "what NoDeviceFound = ''failed to find GPUs with Vulkan support!''"
| "what NoSuitableDevice = ''failed to find a suitable GPU!''"
| "what DeviceCreationFailed = ''failed to create logical device!''"
| "what BadOptionalAccess = ''bad optional access''"

text \<open>
  The calls the program makes to its two collaborators (GLFW and the Vulkan runtime), with
  the arguments that matter and, for the creating calls, the result code and the handle
  written to the out-parameter. \<open>PFN_vkCreateDebugUtilsMessengerEXT\<close> and
  \<open>PFN_vkDestroyDebugUtilsMessengerEXT\<close> are calls through the function pointers
  resolved by \<open>vkGetInstanceProcAddr\<close>.
\<close>

datatype call =
    glfwInit
  | glfwWindowHint string string
  | glfwCreateWindow "32 word" "32 word" string handle
  | glfwWindowShouldClose handle
  | glfwPollEvents
  | glfwDestroyWindow handle
  | glfwTerminate
  | glfwGetRequiredInstanceExtensions
  | vkEnumerateInstanceLayerProperties
  | vkCreateInstance "string list" "string list" VkResult handle
  | vkGetInstanceProcAddr handle string
  | PFN_vkCreateDebugUtilsMessengerEXT handle VkResult handle
  | PFN_vkDestroyDebugUtilsMessengerEXT handle handle
  | vkEnumeratePhysicalDevices handle
  | vkGetPhysicalDeviceQueueFamilyProperties handle
  | vkCreateDevice handle "32 word" "string list" "string list" VkResult handle
  | vkGetDeviceQueue handle "32 word" "32 word" handle
  | vkDestroyDevice handle
  | vkDestroyInstance handle

text \<open>
  What the program does not decide itself: the build mode (\<open>NDEBUG\<close> fixes
  \<open>enableValidationLayers\<close> at compile time) and the answers of GLFW and of the Vulkan
  runtime. \<open>windowShouldClose n\<close> is the answer to the \<open>n\<close>-th call of
  \<open>glfwWindowShouldClose\<close>; \<open>instanceProcAddr name\<close> tells whether
  \<open>vkGetInstanceProcAddr\<close> resolves \<open>name\<close> to a non-null pointer.
\<close>

record env =
  enableValidationLayers :: bool
  requiredInstanceExtensions :: "string list"
  createdWindow :: handle
  windowShouldClose :: "nat \<Rightarrow> bool"
  instanceLayerProperties :: "VkLayerProperties list"
  createInstanceResult :: VkResult
  createdInstance :: handle
  instanceProcAddr :: "string \<Rightarrow> bool"
  createMessengerResult :: VkResult
  createdMessenger :: handle
  physicalDevices :: "handle list"
  queueFamilyProperties :: "handle \<Rightarrow> VkQueueFamilyProperties list"
  createDeviceResult :: VkResult
  createdDevice :: handle
  deviceQueue :: handle

text \<open>
  The members of \<open>class HelloTriangleApplication\<close> (\<open>instance\<close> is written
  \<open>instance'\<close>), and the log of the calls made so far (a ghost field: the program does
  not hold it).
\<close>

record state =
  window :: handle
  instance' :: handle
  debugMessenger :: handle
  physicalDevice :: handle
  device :: handle
  graphicsQueue :: handle
  calls :: "call list"

definition log :: "call \<Rightarrow> state \<Rightarrow> state" where
  "log c s = s\<lparr>calls := calls s @ [c]\<rparr>"

text \<open>A member function either throws (\<open>Inl\<close>) or returns (\<open>Inr\<close>), and leaves a state.\<close>

type_synonym 'a result = "(error + 'a) \<times> state"

definition and_then :: "unit result \<Rightarrow> (state \<Rightarrow> unit result) \<Rightarrow> unit result" where
  "and_then r f = (case r of (Inl e, s) \<Rightarrow> (Inl e, s) | (Inr u, s) \<Rightarrow> f s)"

section \<open>The member functions\<close>

subsection \<open>Layer and extension negotiation\<close>

text \<open>
  The inner loop of \<open>checkValidationLayerSupport\<close>: \<open>strcmp\<close> against each installed
  layer in turn, leaving the loop at the first equal name.
\<close>

fun layerFound :: "string \<Rightarrow> VkLayerProperties list \<Rightarrow> bool" where
  "layerFound name [] = False"
| "layerFound name (layerProperties # rest) =
     (if name = layerName layerProperties then True else layerFound name rest)"

text \<open>
  The outer loop, over the requested names. Besides the verdict it returns the requested
  names it has looked up, in order (ghost output, to state that the loop leaves at the
  first missing name).
\<close>

fun checkLayers :: "string list \<Rightarrow> VkLayerProperties list \<Rightarrow> bool \<times> string list" where
  "checkLayers [] availableLayers = (True, [])"
| "checkLayers (name # rest) availableLayers =
     (if \<not> layerFound name availableLayers then (False, [name])
      else (case checkLayers rest availableLayers of
              (verdict, looked) \<Rightarrow> (verdict, name # looked)))"

definition checkValidationLayerSupport :: "env \<Rightarrow> state \<Rightarrow> bool \<times> state" where
  "checkValidationLayerSupport e s =
     (let s1 = log vkEnumerateInstanceLayerProperties s;
          s2 = log vkEnumerateInstanceLayerProperties s1
      in (fst (checkLayers validationLayers (instanceLayerProperties e)), s2))"

definition getRequiredExtensions :: "env \<Rightarrow> state \<Rightarrow> string list \<times> state" where
  "getRequiredExtensions e s =
     (let s1 = log glfwGetRequiredInstanceExtensions s;
          extensions = requiredInstanceExtensions e
      in (if enableValidationLayers e
          then extensions @ [VK_EXT_DEBUG_UTILS_EXTENSION_NAME]
                 @ [VK_KHR_PORTABILITY_ENUMERATION_EXTENSION_NAME]
                 @ [VK_KHR_GET_PHYSICAL_DEVICE_PROPERTIES_2_EXTENSION_NAME]
          else extensions, s1))"

subsection \<open>Instance and diagnostics channel\<close>

definition createInstance :: "env \<Rightarrow> state \<Rightarrow> unit result" where
  "createInstance e s =
     (let (supported, s1) =
            (if enableValidationLayers e then checkValidationLayerSupport e s else (True, s))
      in if enableValidationLayers e \<and> \<not> supported then (Inl ConfigurationError, s1)
         else
           (let (extensions, s2) = getRequiredExtensions e s1;
                layers = (if enableValidationLayers e then validationLayers else []);
                s3 = log (vkCreateInstance extensions layers
                            (createInstanceResult e) (createdInstance e)) s2
            in if createInstanceResult e \<noteq> VK_SUCCESS then (Inl InstanceCreationFailed, s3)
               else (Inr (), s3\<lparr>instance' := createdInstance e\<rparr>)))"

text \<open>The two look-up proxies at the top of the file.\<close>

definition CreateDebugUtilsMessengerEXT :: "env \<Rightarrow> handle \<Rightarrow> state \<Rightarrow> VkResult \<times> state" where
  "CreateDebugUtilsMessengerEXT e inst s =
     (let s1 = log (vkGetInstanceProcAddr inst ''vkCreateDebugUtilsMessengerEXT'') s
      in if instanceProcAddr e ''vkCreateDebugUtilsMessengerEXT''
         then
           (let s2 = log (PFN_vkCreateDebugUtilsMessengerEXT inst
                            (createMessengerResult e) (createdMessenger e)) s1
            in (createMessengerResult e,
                if createMessengerResult e = VK_SUCCESS
                then s2\<lparr>debugMessenger := createdMessenger e\<rparr> else s2))
         else (VK_ERROR_EXTENSION_NOT_PRESENT, s1))"

definition DestroyDebugUtilsMessengerEXT :: "env \<Rightarrow> handle \<Rightarrow> handle \<Rightarrow> state \<Rightarrow> state" where
  "DestroyDebugUtilsMessengerEXT e inst messenger s =
     (let s1 = log (vkGetInstanceProcAddr inst ''vkDestroyDebugUtilsMessengerEXT'') s
      in if instanceProcAddr e ''vkDestroyDebugUtilsMessengerEXT''
         then log (PFN_vkDestroyDebugUtilsMessengerEXT inst messenger) s1
         else s1)"

definition setupDebugMessenger :: "env \<Rightarrow> state \<Rightarrow> unit result" where
  "setupDebugMessenger e s =
     (if \<not> enableValidationLayers e then (Inr (), s)
      else
        (let (r, s1) = CreateDebugUtilsMessengerEXT e (instance' s) s
         in if r \<noteq> VK_SUCCESS then (Inl ExtensionUnavailable, s1) else (Inr (), s1)))"

subsection \<open>Physical device selection\<close>

text \<open>
  The loop of \<open>findQueueFamilies\<close>. The counter \<open>i\<close> is a C \<open>int\<close>, given here by
  its 32-bit two's-complement pattern, which the assignment to the
  \<open>std::optional<uint32_t>\<close> keeps unchanged. Incrementing it past \<open>2^31 - 1\<close> is
  undefined in C++ and can only happen on a table of \<open>2^31\<close> entries or more; the model
  wraps there, and every statement about the value of the index is made for shorter
  tables, where the counter never wraps. Besides the index holder the function returns the
  table entries the loop body has run on, in order (ghost output, to state what the scan
  observes).
\<close>

fun scanQueueFamilies ::
  "VkQueueFamilyProperties list \<Rightarrow> 32 word \<Rightarrow> QueueFamilyIndices \<Rightarrow>
     QueueFamilyIndices \<times> VkQueueFamilyProperties list" where
  "scanQueueFamilies [] i indices = (indices, [])"
| "scanQueueFamilies (queueFamily # rest) i indices =
     (let indices1 = (if queueFlags queueFamily AND VK_QUEUE_GRAPHICS_BIT \<noteq> 0
                      then indices\<lparr>graphicsFamily := Some i\<rparr> else indices)
      in if isComplete indices1 then (indices1, [queueFamily])
         else (case scanQueueFamilies rest (i + 1) indices1 of
                 (found, seen) \<Rightarrow> (found, queueFamily # seen)))"

definition findQueueFamilies :: "env \<Rightarrow> handle \<Rightarrow> state \<Rightarrow> QueueFamilyIndices \<times> state" where
  "findQueueFamilies e dev s =
     (let s1 = log (vkGetPhysicalDeviceQueueFamilyProperties dev) s;
          s2 = log (vkGetPhysicalDeviceQueueFamilyProperties dev) s1;
          queueFamilies = queueFamilyProperties e dev
      in (fst (scanQueueFamilies queueFamilies 0 \<lparr>graphicsFamily = None\<rparr>), s2))"

definition isDeviceSuitable :: "env \<Rightarrow> handle \<Rightarrow> state \<Rightarrow> bool \<times> state" where
  "isDeviceSuitable e dev s =
     (let (indices, s1) = findQueueFamilies e dev s in (isComplete indices, s1))"

text \<open>The loop of \<open>pickPhysicalDevice\<close> over the enumerated devices.\<close>

fun pickLoop :: "env \<Rightarrow> handle list \<Rightarrow> state \<Rightarrow> state" where
  "pickLoop e [] s = s"
| "pickLoop e (dev # rest) s =
     (case isDeviceSuitable e dev s of
        (True, s1) \<Rightarrow> s1\<lparr>physicalDevice := dev\<rparr>
      | (False, s1) \<Rightarrow> pickLoop e rest s1)"

definition pickPhysicalDevice :: "env \<Rightarrow> state \<Rightarrow> unit result" where
  "pickPhysicalDevice e s =
     (let s1 = log (vkEnumeratePhysicalDevices (instance' s)) s
      in if length (physicalDevices e) = 0 then (Inl NoDeviceFound, s1)
         else
           (let s2 = log (vkEnumeratePhysicalDevices (instance' s)) s1;
                s3 = pickLoop e (physicalDevices e) s2
            in if physicalDevice s3 = VK_NULL_HANDLE then (Inl NoSuitableDevice, s3)
               else (Inr (), s3)))"

subsection \<open>Logical device\<close>

definition createLogicalDevice :: "env \<Rightarrow> state \<Rightarrow> unit result" where
  "createLogicalDevice e s =
     (let (indices, s1) = findQueueFamilies e (physicalDevice s) s
      in case graphicsFamily indices of
           None \<Rightarrow> (Inl BadOptionalAccess, s1)
         | Some family \<Rightarrow>
             (let deviceExtensions =
                    (if enableValidationLayers e
                     then [VK_KHR_PORTABILITY_SUBSET_EXTENSION_NAME] else []);
                  layers = (if enableValidationLayers e then validationLayers else []);
                  s2 = log (vkCreateDevice (physicalDevice s1) family deviceExtensions layers
                              (createDeviceResult e) (createdDevice e)) s1
              in if createDeviceResult e \<noteq> VK_SUCCESS then (Inl DeviceCreationFailed, s2)
                 else
                   (let s3 = s2\<lparr>device := createdDevice e\<rparr>;
                        s4 = log (vkGetDeviceQueue (device s3) family 0 (deviceQueue e)) s3
                    in (Inr (), s4\<lparr>graphicsQueue := deviceQueue e\<rparr>))))"

subsection \<open>The orchestrator\<close>

definition initWindow :: "env \<Rightarrow> state \<Rightarrow> state" where
  "initWindow e s =
     (let s1 = log glfwInit s;
          s2 = log (glfwWindowHint ''GLFW_CLIENT_API'' ''GLFW_NO_API'') s1;
          s3 = log (glfwWindowHint ''GLFW_RESIZABLE'' ''GLFW_FALSE'') s2;
          s4 = log (glfwCreateWindow WIDTH HEIGHT ''Vulkan'' (createdWindow e)) s3
      in s4\<lparr>window := createdWindow e\<rparr>)"

definition initVulkan :: "env \<Rightarrow> state \<Rightarrow> unit result" where
  "initVulkan e s =
     and_then (and_then (and_then (createInstance e s) (setupDebugMessenger e))
                 (pickPhysicalDevice e)) (createLogicalDevice e)"

text \<open>
  The idle loop runs until the window reports a close request, which may never happen:
  \<open>None\<close> is the run that stays in the loop for ever. \<open>n\<close> counts the polls made so far.
\<close>

partial_function (option) mainLoop :: "env \<Rightarrow> nat \<Rightarrow> state \<Rightarrow> state option" where
  "mainLoop e n s =
     (if \<not> windowShouldClose e n
      then mainLoop e (Suc n) (log glfwPollEvents (log (glfwWindowShouldClose (window s)) s))
      else Some (log (glfwWindowShouldClose (window s)) s))"

definition cleanup :: "env \<Rightarrow> state \<Rightarrow> state" where
  "cleanup e s =
     (let s1 = log (vkDestroyDevice (device s)) s;
          s2 = (if enableValidationLayers e
                then DestroyDebugUtilsMessengerEXT e (instance' s1) (debugMessenger s1) s1
                else s1);
          s3 = log (vkDestroyInstance (instance' s2)) s2;
          s4 = log (glfwDestroyWindow (window s3)) s3
      in log glfwTerminate s4)"

definition run :: "env \<Rightarrow> state \<Rightarrow> unit result option" where
  "run e s =
     (case initVulkan e (initWindow e s) of
        (Inl err, s1) \<Rightarrow> Some (Inl err, s1)
      | (Inr u, s1) \<Rightarrow>
          (case mainLoop e 0 s1 of
             None \<Rightarrow> None
           | Some s2 \<Rightarrow> Some (Inr (), cleanup e s2)))"

text \<open>
  \<open>main\<close>: the members of a fresh application object are indeterminate (\<open>memory\<close>)
  except \<open>physicalDevice\<close>, which its initialiser sets to null. The result is the exit
  code, what \<open>main\<close> wrote to \<open>std::cerr\<close>, and the calls made. \<open>EXIT_FAILURE\<close> is 1
  on the usual platforms.
\<close>

definition EXIT_SUCCESS :: int where
  "EXIT_SUCCESS = 0"

definition EXIT_FAILURE :: int where
  "EXIT_FAILURE = 1"

definition newApplication :: "state \<Rightarrow> state" where
  "newApplication memory = memory\<lparr>physicalDevice := VK_NULL_HANDLE, calls := []\<rparr>"

definition main :: "env \<Rightarrow> state \<Rightarrow> (int \<times> string \<times> call list) option" where
  "main e memory =
     (case run e (newApplication memory) of
        None \<Rightarrow> None
      | Some (Inl err, s) \<Rightarrow> Some (EXIT_FAILURE, what err @ [CHR 0x0A], calls s)
      | Some (Inr u, s) \<Rightarrow> Some (EXIT_SUCCESS, [], calls s))"

section \<open>Notions used in the statements\<close>

text \<open>A queue family supports graphics when its flags include the graphics bit.\<close>

definition graphicsCapable :: "VkQueueFamilyProperties \<Rightarrow> bool" where
  "graphicsCapable queueFamily = (queueFlags queueFamily AND VK_QUEUE_GRAPHICS_BIT \<noteq> 0)"

text \<open>
  The position of the first graphics-capable entry of a table (the length of the table when
  there is none).
\<close>

definition firstGraphics :: "VkQueueFamilyProperties list \<Rightarrow> nat" where
  "firstGraphics queueFamilies =
     length (takeWhile (\<lambda>q. \<not> graphicsCapable q) queueFamilies)"

text \<open>
  The suitability predicate in the specification's words: the device exposes at least one
  queue family that supports graphics.
\<close>

definition suitable :: "env \<Rightarrow> handle \<Rightarrow> bool" where
  "suitable e dev = (\<exists>q \<in> set (queueFamilyProperties e dev). graphicsCapable q)"

definition firstSuitable :: "env \<Rightarrow> handle list \<Rightarrow> nat" where
  "firstSuitable e devices = length (takeWhile (\<lambda>d. \<not> suitable e d) devices)"

text \<open>The calls that one suitability check of each of the given devices makes.\<close>

definition familyQueries :: "handle list \<Rightarrow> call list" where
  "familyQueries devices =
     concat (map (\<lambda>d. [vkGetPhysicalDeviceQueueFamilyProperties d,
                        vkGetPhysicalDeviceQueueFamilyProperties d]) devices)"

subsection \<open>A sample host\<close>

text \<open>
  A debug build on a host with the validation layer installed and three devices: device 41
  has a compute-only queue family, device 42 the table \<open>[compute, graphics, graphics]\<close>,
  device 43 a single graphics family. The window asks to close at the third poll.
\<close>

definition computeFamily :: VkQueueFamilyProperties where
  "computeFamily =
     \<lparr>queueFlags = VK_QUEUE_COMPUTE_BIT, queueCount = 4, timestampValidBits = 64\<rparr>"

definition graphicsFamilyA :: VkQueueFamilyProperties where
  "graphicsFamilyA =
     \<lparr>queueFlags = VK_QUEUE_GRAPHICS_BIT, queueCount = 1, timestampValidBits = 64\<rparr>"

definition graphicsFamilyB :: VkQueueFamilyProperties where
  "graphicsFamilyB =
     \<lparr>queueFlags = VK_QUEUE_GRAPHICS_BIT OR VK_QUEUE_COMPUTE_BIT, queueCount = 2,
      timestampValidBits = 64\<rparr>"

definition khronosLayer :: VkLayerProperties where
  "khronosLayer =
     \<lparr>layerName = ''VK_LAYER_KHRONOS_validation'', specVersion = 1,
      implementationVersion = 1, description = ''Khronos Validation Layer''\<rparr>"

definition sampleHost :: env where
  "sampleHost =
     \<lparr>enableValidationLayers = True,
      requiredInstanceExtensions = [''VK_KHR_surface'', ''VK_EXT_metal_surface''],
      createdWindow = 10,
      windowShouldClose = (\<lambda>n. 2 \<le> n),
      instanceLayerProperties = [khronosLayer],
      createInstanceResult = VK_SUCCESS,
      createdInstance = 20,
      instanceProcAddr = (\<lambda>name. True),
      createMessengerResult = VK_SUCCESS,
      createdMessenger = 30,
      physicalDevices = [41, 42, 43],
      queueFamilyProperties =
        (\<lambda>dev. if dev = 41 then [computeFamily]
               else if dev = 42 then [computeFamily, graphicsFamilyA, graphicsFamilyB]
               else [graphicsFamilyA]),
      createDeviceResult = VK_SUCCESS,
      createdDevice = 50,
      deviceQueue = 60\<rparr>"

definition blankMemory :: state where
  "blankMemory =
     \<lparr>window = 0, instance' = 0, debugMessenger = 0, physicalDevice = 0, device = 0,
      graphicsQueue = 0, calls = []\<rparr>"

text \<open>
  Variants of the sample host. On \<open>rejectingHost\<close> the driver rejects the logical
  device; \<open>rejectedCalls\<close> are the calls the program makes there. On \<open>emptyHost\<close> the
  driver reports no device; \<open>emptyHostCalls\<close> are the calls the program makes there.
\<close>

definition rejectingHost :: env where
  "rejectingHost = sampleHost\<lparr>createDeviceResult := - 3\<rparr>"

definition rejectedCalls :: "call list" where
  "rejectedCalls =
     [glfwInit, glfwWindowHint ''GLFW_CLIENT_API'' ''GLFW_NO_API'',
      glfwWindowHint ''GLFW_RESIZABLE'' ''GLFW_FALSE'',
      glfwCreateWindow 800 600 ''Vulkan'' 10,
      vkEnumerateInstanceLayerProperties, vkEnumerateInstanceLayerProperties,
      glfwGetRequiredInstanceExtensions,
      vkCreateInstance
        [''VK_KHR_surface'', ''VK_EXT_metal_surface'', ''VK_EXT_debug_utils'',
         ''VK_KHR_portability_enumeration'',
         ''VK_KHR_get_physical_device_properties2'']
        [''VK_LAYER_KHRONOS_validation''] 0 20,
      vkGetInstanceProcAddr 20 ''vkCreateDebugUtilsMessengerEXT'',
      PFN_vkCreateDebugUtilsMessengerEXT 20 0 30,
      vkEnumeratePhysicalDevices 20, vkEnumeratePhysicalDevices 20,
      vkGetPhysicalDeviceQueueFamilyProperties 41,
      vkGetPhysicalDeviceQueueFamilyProperties 41,
      vkGetPhysicalDeviceQueueFamilyProperties 42,
      vkGetPhysicalDeviceQueueFamilyProperties 42,
      vkGetPhysicalDeviceQueueFamilyProperties 42,
      vkGetPhysicalDeviceQueueFamilyProperties 42,
      vkCreateDevice 42 1 [''VK_KHR_portability_subset'']
        [''VK_LAYER_KHRONOS_validation''] (- 3) 50]"

definition emptyHost :: env where
  "emptyHost = sampleHost\<lparr>physicalDevices := []\<rparr>"

definition emptyHostCalls :: "call list" where
  "emptyHostCalls =
     [glfwInit, glfwWindowHint ''GLFW_CLIENT_API'' ''GLFW_NO_API'',
      glfwWindowHint ''GLFW_RESIZABLE'' ''GLFW_FALSE'',
      glfwCreateWindow 800 600 ''Vulkan'' 10,
      vkEnumerateInstanceLayerProperties, vkEnumerateInstanceLayerProperties,
      glfwGetRequiredInstanceExtensions,
      vkCreateInstance
        [''VK_KHR_surface'', ''VK_EXT_metal_surface'', ''VK_EXT_debug_utils'',
         ''VK_KHR_portability_enumeration'',
         ''VK_KHR_get_physical_device_properties2'']
        [''VK_LAYER_KHRONOS_validation''] 0 20,
      vkGetInstanceProcAddr 20 ''vkCreateDebugUtilsMessengerEXT'',
      PFN_vkCreateDebugUtilsMessengerEXT 20 0 30,
      vkEnumeratePhysicalDevices 20]"

subsection \<open>Owned resources and their lifetimes\<close>

text \<open>
  Ghost accounting over the call log: which owned resource a call brings into existence
  (a creating call that reports success) and which it releases.
\<close>

datatype resource =
    WindowSystem
  | Window handle
  | Instance handle
  | DiagnosticsChannel handle
  | LogicalDevice handle

fun acquires :: "call \<Rightarrow> resource list" where
  "acquires glfwInit = [WindowSystem]"
| "acquires (glfwCreateWindow w h title win) = [Window win]"
| "acquires (vkCreateInstance extensions layers r inst) =
     (if r = VK_SUCCESS then [Instance inst] else [])"
| "acquires (PFN_vkCreateDebugUtilsMessengerEXT inst r messenger) =
     (if r = VK_SUCCESS then [DiagnosticsChannel messenger] else [])"
| "acquires (vkCreateDevice dev family extensions layers r d) =
     (if r = VK_SUCCESS then [LogicalDevice d] else [])"
| "acquires c = []"

fun releases :: "call \<Rightarrow> resource list" where
  "releases (vkDestroyDevice d) = [LogicalDevice d]"
| "releases (PFN_vkDestroyDebugUtilsMessengerEXT inst messenger) = [DiagnosticsChannel messenger]"
| "releases (vkDestroyInstance inst) = [Instance inst]"
| "releases (glfwDestroyWindow win) = [Window win]"
| "releases glfwTerminate = [WindowSystem]"
| "releases c = []"

definition acquired :: "call list \<Rightarrow> resource list" where
  "acquired tr = concat (map acquires tr)"

definition released :: "call list \<Rightarrow> resource list" where
  "released tr = concat (map releases tr)"

text \<open>
  The lifetime events of a call log, and the stack discipline on them: a resource is
  released only while it is the most recently acquired one still alive, and none is alive
  at the end. Under this discipline the validity interval of each resource lies inside the
  interval of every resource acquired before it.
\<close>

datatype event = Acquire resource | Release resource

definition lifetimes :: "call list \<Rightarrow> event list" where
  "lifetimes tr = concat (map (\<lambda>c. map Acquire (acquires c) @ map Release (releases c)) tr)"

fun wellNested :: "resource list \<Rightarrow> event list \<Rightarrow> bool" where
  "wellNested live [] = (live = [])"
| "wellNested live (Acquire r # rest) = wellNested (r # live) rest"
| "wellNested live (Release r # rest) =
     (case live of [] \<Rightarrow> False | newest # older \<Rightarrow> newest = r \<and> wellNested older rest)"

text \<open>The creating calls of a log, whether or not they succeeded.\<close>

datatype attempt = CreatesWindow | CreatesInstance | CreatesChannel | CreatesDevice

fun attempts :: "call \<Rightarrow> attempt list" where
  "attempts (glfwCreateWindow w h title win) = [CreatesWindow]"
| "attempts (vkCreateInstance extensions layers r inst) = [CreatesInstance]"
| "attempts (PFN_vkCreateDebugUtilsMessengerEXT inst r messenger) = [CreatesChannel]"
| "attempts (vkCreateDevice dev family extensions layers r d) = [CreatesDevice]"
| "attempts c = []"

definition attempted :: "call list \<Rightarrow> attempt list" where
  "attempted tr = concat (map attempts tr)"

text \<open>The calls of an idle phase that polls \<open>k\<close> times before the close request.\<close>

fun idleCalls :: "handle \<Rightarrow> nat \<Rightarrow> call list" where
  "idleCalls win 0 = [glfwWindowShouldClose win]"
| "idleCalls win (Suc k) = [glfwWindowShouldClose win, glfwPollEvents] @ idleCalls win k"

text \<open>The calls of the Vulkan API that take a physical or a logical device.\<close>

fun deviceCall :: "call \<Rightarrow> bool" where
  "deviceCall (vkGetPhysicalDeviceQueueFamilyProperties dev) = True"
| "deviceCall (vkCreateDevice dev family extensions layers r d) = True"
| "deviceCall (vkGetDeviceQueue d family slot q) = True"
| "deviceCall (vkDestroyDevice d) = True"
| "deviceCall c = False"

text \<open>The calls of \<open>initWindow\<close>.\<close>

definition windowCalls :: "env \<Rightarrow> call list" where
  "windowCalls e =
     [glfwInit, glfwWindowHint ''GLFW_CLIENT_API'' ''GLFW_NO_API'',
      glfwWindowHint ''GLFW_RESIZABLE'' ''GLFW_FALSE'',
      glfwCreateWindow WIDTH HEIGHT ''Vulkan'' (createdWindow e)]"

section \<open>Queue-family discovery\<close>

lemma scan_from:
  "graphicsFamily indices = None \<Longrightarrow>
   scanQueueFamilies qs i indices =
     (if firstGraphics qs < length qs
      then (indices\<lparr>graphicsFamily := Some (i + of_nat (firstGraphics qs))\<rparr>,
            take (Suc (firstGraphics qs)) qs)
      else (indices, qs))"
proof (induction qs arbitrary: i)
  case Nil
  then show ?case by (simp add: firstGraphics_def)
next
  case (Cons q qs)
  show ?case
  proof (cases "graphicsCapable q")
    case True
    then show ?thesis
      by (simp add: firstGraphics_def graphicsCapable_def isComplete_def)
  next
    case False
    with Cons.prems have "scanQueueFamilies (q # qs) i indices =
      (case scanQueueFamilies qs (i + 1) indices of (found, seen) \<Rightarrow> (found, q # seen))"
      by (simp add: graphicsCapable_def isComplete_def)
    also have "scanQueueFamilies qs (i + 1) indices =
      (if firstGraphics qs < length qs
       then (indices\<lparr>graphicsFamily := Some (i + 1 + of_nat (firstGraphics qs))\<rparr>,
             take (Suc (firstGraphics qs)) qs)
       else (indices, qs))"
      using Cons.IH [OF Cons.prems] .
    finally show ?thesis using False
      by (simp add: firstGraphics_def add.assoc)
  qed
qed

lemma firstGraphics_less:
  "(\<exists>q \<in> set qs. graphicsCapable q) \<longleftrightarrow> firstGraphics qs < length qs"
  unfolding firstGraphics_def by (induction qs) auto

lemma firstGraphics_hit:
  "firstGraphics qs < length qs \<Longrightarrow> graphicsCapable (qs ! firstGraphics qs)"
  unfolding firstGraphics_def
  using nth_length_takeWhile [of "\<lambda>q. \<not> graphicsCapable q" qs] by simp

lemma firstGraphics_before:
  "j < firstGraphics qs \<Longrightarrow> \<not> graphicsCapable (qs ! j)"
  unfolding firstGraphics_def
  using takeWhile_nth [of j "\<lambda>q. \<not> graphicsCapable q" qs]
    nth_mem [of j "takeWhile (\<lambda>q. \<not> graphicsCapable q) qs"]
    set_takeWhileD [of "qs ! j" "\<lambda>q. \<not> graphicsCapable q" qs]
  by auto

lemma findQueueFamilies_eq:
  "findQueueFamilies e dev s =
     (fst (scanQueueFamilies (queueFamilyProperties e dev) 0 \<lparr>graphicsFamily = None\<rparr>),
      s\<lparr>calls := calls s @ familyQueries [dev]\<rparr>)"
  by (simp add: findQueueFamilies_def log_def Let_def familyQueries_def)

lemma sample_families:
  "\<not> graphicsCapable computeFamily" "graphicsCapable graphicsFamilyA"
  "graphicsCapable graphicsFamilyB"
  by (simp_all add: graphicsCapable_def computeFamily_def graphicsFamilyA_def
      graphicsFamilyB_def VK_QUEUE_GRAPHICS_BIT_def VK_QUEUE_COMPUTE_BIT_def)

lemma sample_tables:
  "queueFamilyProperties sampleHost 41 = [computeFamily]"
  "queueFamilyProperties sampleHost 42 = [computeFamily, graphicsFamilyA, graphicsFamilyB]"
  "queueFamilyProperties sampleHost 43 = [graphicsFamilyA]"
  by (simp_all add: sampleHost_def)

lemma sample_scan:
  "scanQueueFamilies [computeFamily, graphicsFamilyA, graphicsFamilyB] 0
     \<lparr>graphicsFamily = None\<rparr> = (\<lparr>graphicsFamily = Some 1\<rparr>, [computeFamily, graphicsFamilyA])"
  using scan_from [of "\<lparr>graphicsFamily = None\<rparr>"
      "[computeFamily, graphicsFamilyA, graphicsFamilyB]" 0]
  by (simp add: firstGraphics_def sample_families del: scanQueueFamilies.simps)

text \<open>
  C1. For every device whose queue-family table has a graphics-capable entry (and fewer than
  \<open>2^31\<close> entries, the range of the C \<open>int\<close> counter), \<open>findQueueFamilies\<close> returns the
  index of the first entry whose flags include the graphics bit, and its scan has run on
  the entries up to that index and on no later one. On the table
  \<open>[compute, graphics, graphics]\<close> it returns index 1 and has looked at the entries at
  indices 0 and 1 only.
\<close>

theorem findQueueFamilies_first_graphics:
  assumes "queueFamilyProperties e dev = table"
      and "\<exists>q \<in> set table. graphicsCapable q"
      and "length table < 2 ^ 31"
  shows "(\<exists>i. fst (findQueueFamilies e dev s) = \<lparr>graphicsFamily = Some i\<rparr>
            \<and> unat i = firstGraphics table
            \<and> unat i < length table
            \<and> graphicsCapable (table ! unat i)
            \<and> (\<forall>j < unat i. \<not> graphicsCapable (table ! j))
            \<and> snd (scanQueueFamilies table 0 \<lparr>graphicsFamily = None\<rparr>)
                = take (Suc (unat i)) table)
       \<and> scanQueueFamilies [computeFamily, graphicsFamilyA, graphicsFamilyB] 0
            \<lparr>graphicsFamily = None\<rparr>
          = (\<lparr>graphicsFamily = Some 1\<rparr>, [computeFamily, graphicsFamilyA])"
proof
  let ?k = "firstGraphics table"
  from assms(2) have less: "?k < length table" by (simp add: firstGraphics_less)
  with assms(3) have "?k < 2 ^ 32" by simp
  then have u: "unat (of_nat ?k :: 32 word) = ?k" by (simp add: unat_of_nat)
  have "fst (findQueueFamilies e dev s) = \<lparr>graphicsFamily = Some (of_nat ?k)\<rparr>"
    using less assms(1) by (simp add: findQueueFamilies_eq scan_from)
  moreover have "snd (scanQueueFamilies table 0 \<lparr>graphicsFamily = None\<rparr>)
      = take (Suc ?k) table"
    using less by (simp add: scan_from)
  moreover have "graphicsCapable (table ! ?k)" using less by (rule firstGraphics_hit)
  moreover have "\<forall>j < ?k. \<not> graphicsCapable (table ! j)"
    by (simp add: firstGraphics_before)
  ultimately show "\<exists>i. fst (findQueueFamilies e dev s) = \<lparr>graphicsFamily = Some i\<rparr>
            \<and> unat i = firstGraphics table
            \<and> unat i < length table
            \<and> graphicsCapable (table ! unat i)
            \<and> (\<forall>j < unat i. \<not> graphicsCapable (table ! j))
            \<and> snd (scanQueueFamilies table 0 \<lparr>graphicsFamily = None\<rparr>)
                = take (Suc (unat i)) table"
    using less u by (intro exI [of _ "of_nat ?k"]) simp
next
  show "scanQueueFamilies [computeFamily, graphicsFamilyA, graphicsFamilyB] 0
            \<lparr>graphicsFamily = None\<rparr>
          = (\<lparr>graphicsFamily = Some 1\<rparr>, [computeFamily, graphicsFamilyA])"
    using scan_from [of "\<lparr>graphicsFamily = None\<rparr>"
        "[computeFamily, graphicsFamilyA, graphicsFamilyB]" 0]
    by (simp add: firstGraphics_def sample_families del: scanQueueFamilies.simps)
qed

theorem findQueueFamilies_first_graphics_witness:
  "queueFamilyProperties sampleHost 42 = [computeFamily, graphicsFamilyA, graphicsFamilyB]
   \<and> graphicsCapable graphicsFamilyA
   \<and> length [computeFamily, graphicsFamilyA, graphicsFamilyB] < 2 ^ 31
   \<and> fst (findQueueFamilies sampleHost 42 blankMemory) = \<lparr>graphicsFamily = Some 1\<rparr>
   \<and> firstGraphics [computeFamily, graphicsFamilyA, graphicsFamilyB] = 1"
proof -
  have t: "queueFamilyProperties sampleHost 42
      = [computeFamily, graphicsFamilyA, graphicsFamilyB]"
    by (rule sample_tables)
  have g: "\<exists>q \<in> set [computeFamily, graphicsFamilyA, graphicsFamilyB]. graphicsCapable q"
    by (simp add: sample_families)
  have l: "length [computeFamily, graphicsFamilyA, graphicsFamilyB] < 2 ^ 31" by simp
  have k: "firstGraphics [computeFamily, graphicsFamilyA, graphicsFamilyB] = 1"
    by (simp add: firstGraphics_def sample_families)
  from findQueueFamilies_first_graphics [OF t g l, of blankMemory]
  obtain i where "fst (findQueueFamilies sampleHost 42 blankMemory)
        = \<lparr>graphicsFamily = Some i\<rparr>"
      and "unat i = firstGraphics [computeFamily, graphicsFamilyA, graphicsFamilyB]"
    by blast
  with k have "fst (findQueueFamilies sampleHost 42 blankMemory)
      = \<lparr>graphicsFamily = Some 1\<rparr>"
    by (simp add: word_unat_eq_iff [of i 1])
  with t l k show ?thesis by (simp add: sample_families)
qed

text \<open>
  C10. On a table of fewer than \<open>2^31\<close> entries: an index held by the result of
  \<open>findQueueFamilies\<close> is strictly less than the number of queue families of the device,
  and the family at that index has the graphics bit; when no family has the graphics bit,
  the returned holder is empty and \<open>isComplete\<close> is false.
\<close>

theorem findQueueFamilies_index_valid:
  assumes "queueFamilyProperties e dev = table"
      and "length table < 2 ^ 31"
  shows "(\<forall>i. graphicsFamily (fst (findQueueFamilies e dev s)) = Some i \<longrightarrow>
            unat i < length table \<and> graphicsCapable (table ! unat i))
       \<and> ((\<forall>q \<in> set table. \<not> graphicsCapable q) \<longrightarrow>
            graphicsFamily (fst (findQueueFamilies e dev s)) = None
          \<and> \<not> isComplete (fst (findQueueFamilies e dev s)))"
proof (intro conjI allI impI)
  fix i
  assume held: "graphicsFamily (fst (findQueueFamilies e dev s)) = Some i"
  let ?k = "firstGraphics table"
  from held assms(1) have less: "?k < length table" and i: "i = of_nat ?k"
    by (auto simp add: findQueueFamilies_eq scan_from split: if_splits)
  from less assms(2) have "?k < 2 ^ 32" by simp
  then have "unat (of_nat ?k :: 32 word) = ?k" by (simp add: unat_of_nat)
  with i have u: "unat i = ?k" by simp
  from u less show "unat i < length table" by simp
  from u less show "graphicsCapable (table ! unat i)" by (simp add: firstGraphics_hit)
next
  assume "\<forall>q \<in> set table. \<not> graphicsCapable q"
  then have none: "\<not> firstGraphics table < length table"
    using firstGraphics_less [of table] by simp
  with assms(1) show "graphicsFamily (fst (findQueueFamilies e dev s)) = None"
    by (simp add: findQueueFamilies_eq scan_from)
  then show "\<not> isComplete (fst (findQueueFamilies e dev s))"
    by (simp add: isComplete_def)
qed

theorem findQueueFamilies_index_valid_witness:
  "queueFamilyProperties sampleHost 42 = [computeFamily, graphicsFamilyA, graphicsFamilyB]
   \<and> length [computeFamily, graphicsFamilyA, graphicsFamilyB] < 2 ^ 31
   \<and> graphicsFamily (fst (findQueueFamilies sampleHost 42 blankMemory)) = Some 1
   \<and> unat (1 :: 32 word) < length [computeFamily, graphicsFamilyA, graphicsFamilyB]
   \<and> graphicsCapable ([computeFamily, graphicsFamilyA, graphicsFamilyB] ! unat (1 :: 32 word))
   \<and> queueFamilyProperties sampleHost 41 = [computeFamily]
   \<and> \<not> graphicsCapable computeFamily
   \<and> graphicsFamily (fst (findQueueFamilies sampleHost 41 blankMemory)) = None
   \<and> \<not> isComplete (fst (findQueueFamilies sampleHost 41 blankMemory))"
proof -
  have t42: "queueFamilyProperties sampleHost 42
      = [computeFamily, graphicsFamilyA, graphicsFamilyB]"
    by (rule sample_tables)
  have l42: "length [computeFamily, graphicsFamilyA, graphicsFamilyB] < 2 ^ 31" by simp
  have t41: "queueFamilyProperties sampleHost 41 = [computeFamily]"
    by (rule sample_tables)
  have l41: "length [computeFamily] < 2 ^ 31" by simp
  have held: "graphicsFamily (fst (findQueueFamilies sampleHost 42 blankMemory)) = Some 1"
    using scan_from [of "\<lparr>graphicsFamily = None\<rparr>"
        "[computeFamily, graphicsFamilyA, graphicsFamilyB]" 0]
    by (simp add: findQueueFamilies_eq t42 firstGraphics_def sample_families
        del: scanQueueFamilies.simps)
  from findQueueFamilies_index_valid [OF t42 l42, of blankMemory] held
  have a: "unat (1 :: 32 word) < length [computeFamily, graphicsFamilyA, graphicsFamilyB]
      \<and> graphicsCapable ([computeFamily, graphicsFamilyA, graphicsFamilyB] ! unat (1 :: 32 word))"
    by blast
  from findQueueFamilies_index_valid [OF t41 l41, of blankMemory]
  have b: "graphicsFamily (fst (findQueueFamilies sampleHost 41 blankMemory)) = None
      \<and> \<not> isComplete (fst (findQueueFamilies sampleHost 41 blankMemory))"
    by (simp add: sample_families)
  from t42 l42 held a t41 b show ?thesis by (simp add: sample_families)
qed

section \<open>Physical device selection\<close>

lemma scan_complete:
  "isComplete (fst (scanQueueFamilies qs 0 \<lparr>graphicsFamily = None\<rparr>))
     = (\<exists>q \<in> set qs. graphicsCapable q)"
  by (simp add: scan_from firstGraphics_less isComplete_def)

lemma isDeviceSuitable_eq:
  "isDeviceSuitable e dev s = (suitable e dev, s\<lparr>calls := calls s @ familyQueries [dev]\<rparr>)"
  by (simp add: isDeviceSuitable_def findQueueFamilies_eq scan_complete suitable_def)

lemma firstSuitable_less:
  "(\<exists>d \<in> set ds. suitable e d) \<longleftrightarrow> firstSuitable e ds < length ds"
  unfolding firstSuitable_def by (induction ds) auto

lemma firstSuitable_hit:
  "firstSuitable e ds < length ds \<Longrightarrow> suitable e (ds ! firstSuitable e ds)"
  unfolding firstSuitable_def
  using nth_length_takeWhile [of "\<lambda>d. \<not> suitable e d" ds] by simp

lemma firstSuitable_before:
  "j < firstSuitable e ds \<Longrightarrow> \<not> suitable e (ds ! j)"
  unfolding firstSuitable_def
  using takeWhile_nth [of j "\<lambda>d. \<not> suitable e d" ds]
    nth_mem [of j "takeWhile (\<lambda>d. \<not> suitable e d) ds"]
    set_takeWhileD [of "ds ! j" "\<lambda>d. \<not> suitable e d" ds]
  by auto

lemma pickLoop_eq:
  "pickLoop e ds s =
     (if firstSuitable e ds < length ds
      then s\<lparr>physicalDevice := ds ! firstSuitable e ds,
             calls := calls s @ familyQueries (take (Suc (firstSuitable e ds)) ds)\<rparr>
      else s\<lparr>calls := calls s @ familyQueries ds\<rparr>)"
proof (induction ds arbitrary: s)
  case Nil
  then show ?case by (simp add: firstSuitable_def familyQueries_def)
next
  case (Cons d ds)
  show ?case
  proof (cases "suitable e d")
    case True
    then show ?thesis
      by (simp add: isDeviceSuitable_eq firstSuitable_def familyQueries_def)
  next
    case False
    then show ?thesis
      by (simp add: isDeviceSuitable_eq Cons.IH firstSuitable_def familyQueries_def)
  qed
qed

lemma pickPhysicalDevice_eq:
  "pickPhysicalDevice e s =
     (if physicalDevices e = []
      then (Inl NoDeviceFound,
            s\<lparr>calls := calls s @ [vkEnumeratePhysicalDevices (instance' s)]\<rparr>)
      else let s3 = pickLoop e (physicalDevices e)
                      (s\<lparr>calls := calls s @ [vkEnumeratePhysicalDevices (instance' s),
                                              vkEnumeratePhysicalDevices (instance' s)]\<rparr>)
           in if physicalDevice s3 = VK_NULL_HANDLE then (Inl NoSuitableDevice, s3)
              else (Inr (), s3))"
  by (simp add: pickPhysicalDevice_def log_def Let_def)

lemma suitable_held:
  "suitable e d \<Longrightarrow>
   \<exists>family. graphicsFamily (fst (scanQueueFamilies (queueFamilyProperties e d) 0
                 \<lparr>graphicsFamily = None\<rparr>)) = Some family"
  using scan_complete [of "queueFamilyProperties e d"]
  by (simp add: suitable_def isComplete_def)

lemma pick_returns_suitable:
  assumes "physicalDevice s = VK_NULL_HANDLE" and "pickPhysicalDevice e s = (Inr u, s1)"
  shows "suitable e (physicalDevice s1)"
  using assms
  by (auto simp add: pickPhysicalDevice_eq pickLoop_eq Let_def firstSuitable_hit
      split: if_splits)

lemma sample_suitable:
  "\<not> suitable sampleHost 41" "suitable sampleHost 42" "suitable sampleHost 43"
  by (simp_all add: suitable_def sample_tables sample_families)

lemma sample_firstSuitable: "firstSuitable sampleHost [41, 42, 43] = 1"
  by (simp add: firstSuitable_def sample_suitable)

lemma sample_pick:
  "pickPhysicalDevice sampleHost blankMemory =
     (Inr (),
      blankMemory\<lparr>physicalDevice := 42,
        calls := [vkEnumeratePhysicalDevices 0, vkEnumeratePhysicalDevices 0,
                  vkGetPhysicalDeviceQueueFamilyProperties 41,
                  vkGetPhysicalDeviceQueueFamilyProperties 41,
                  vkGetPhysicalDeviceQueueFamilyProperties 42,
                  vkGetPhysicalDeviceQueueFamilyProperties 42]\<rparr>)"
proof -
  have "physicalDevices sampleHost = [41, 42, 43]" by (simp add: sampleHost_def)
  then show ?thesis
    by (simp add: pickPhysicalDevice_eq pickLoop_eq sample_firstSuitable familyQueries_def
        blankMemory_def VK_NULL_HANDLE_def Let_def)
qed

text \<open>
  C2. Let the application start with no device selected and let the driver enumerate valid
  (non-null) devices. If some device is suitable, \<open>pickPhysicalDevice\<close> returns with the
  first suitable device of the sequence retained, and the suitability checks it has made
  are those of the devices up to that one, in order, and of no later device. If the
  sequence is not empty and no device is suitable, it fails with \<open>NoSuitableDevice\<close> after
  checking every device.
\<close>

theorem pickPhysicalDevice_first_suitable:
  assumes fresh: "physicalDevice s = VK_NULL_HANDLE"
      and valid: "VK_NULL_HANDLE \<notin> set (physicalDevices e)"
  shows "((\<exists>d \<in> set (physicalDevices e). suitable e d) \<longrightarrow>
            firstSuitable e (physicalDevices e) < length (physicalDevices e)
          \<and> suitable e (physicalDevices e ! firstSuitable e (physicalDevices e))
          \<and> (\<forall>j < firstSuitable e (physicalDevices e). \<not> suitable e (physicalDevices e ! j))
          \<and> pickPhysicalDevice e s =
              (Inr (),
               s\<lparr>physicalDevice := physicalDevices e ! firstSuitable e (physicalDevices e),
                  calls := calls s
                    @ [vkEnumeratePhysicalDevices (instance' s),
                       vkEnumeratePhysicalDevices (instance' s)]
                    @ familyQueries
                        (take (Suc (firstSuitable e (physicalDevices e)))
                           (physicalDevices e))\<rparr>))
       \<and> (physicalDevices e \<noteq> [] \<and> (\<forall>d \<in> set (physicalDevices e). \<not> suitable e d) \<longrightarrow>
            pickPhysicalDevice e s =
              (Inl NoSuitableDevice,
               s\<lparr>calls := calls s
                    @ [vkEnumeratePhysicalDevices (instance' s),
                       vkEnumeratePhysicalDevices (instance' s)]
                    @ familyQueries (physicalDevices e)\<rparr>))
       \<and> (\<forall>d. fst (isDeviceSuitable e d s) = suitable e d)"
proof (intro conjI impI)
  assume ex: "\<exists>d \<in> set (physicalDevices e). suitable e d"
  then show less: "firstSuitable e (physicalDevices e) < length (physicalDevices e)"
    by (simp add: firstSuitable_less)
  then show "suitable e (physicalDevices e ! firstSuitable e (physicalDevices e))"
    by (rule firstSuitable_hit)
  show "\<forall>j < firstSuitable e (physicalDevices e). \<not> suitable e (physicalDevices e ! j)"
    by (simp add: firstSuitable_before)
  from less
  have "physicalDevices e ! firstSuitable e (physicalDevices e) \<in> set (physicalDevices e)"
    by simp
  with valid have "physicalDevices e ! firstSuitable e (physicalDevices e) \<noteq> VK_NULL_HANDLE"
    by metis
  moreover from less have "physicalDevices e \<noteq> []" by auto
  ultimately show "pickPhysicalDevice e s =
      (Inr (),
       s\<lparr>physicalDevice := physicalDevices e ! firstSuitable e (physicalDevices e),
          calls := calls s
            @ [vkEnumeratePhysicalDevices (instance' s),
               vkEnumeratePhysicalDevices (instance' s)]
            @ familyQueries
                (take (Suc (firstSuitable e (physicalDevices e))) (physicalDevices e))\<rparr>)"
    using less by (simp add: pickPhysicalDevice_eq pickLoop_eq)
next
  assume none: "physicalDevices e \<noteq> [] \<and> (\<forall>d \<in> set (physicalDevices e). \<not> suitable e d)"
  then have "\<not> firstSuitable e (physicalDevices e) < length (physicalDevices e)"
    using firstSuitable_less [of "physicalDevices e" e] by simp
  then show "pickPhysicalDevice e s =
      (Inl NoSuitableDevice,
       s\<lparr>calls := calls s
            @ [vkEnumeratePhysicalDevices (instance' s),
               vkEnumeratePhysicalDevices (instance' s)]
            @ familyQueries (physicalDevices e)\<rparr>)"
    using none fresh by (simp add: pickPhysicalDevice_eq pickLoop_eq)
next
  show "\<forall>d. fst (isDeviceSuitable e d s) = suitable e d" by (simp add: isDeviceSuitable_eq)
qed

theorem pickPhysicalDevice_first_suitable_witness:
  "(physicalDevice blankMemory = VK_NULL_HANDLE
   \<and> VK_NULL_HANDLE \<notin> set (physicalDevices sampleHost)
   \<and> physicalDevices sampleHost = [41, 42, 43]
   \<and> \<not> suitable sampleHost 41 \<and> suitable sampleHost 42 \<and> suitable sampleHost 43
   \<and> pickPhysicalDevice sampleHost blankMemory =
       (Inr (),
        blankMemory\<lparr>physicalDevice := 42,
          calls := [vkEnumeratePhysicalDevices 0, vkEnumeratePhysicalDevices 0,
                    vkGetPhysicalDeviceQueueFamilyProperties 41,
                    vkGetPhysicalDeviceQueueFamilyProperties 41,
                    vkGetPhysicalDeviceQueueFamilyProperties 42,
                    vkGetPhysicalDeviceQueueFamilyProperties 42]\<rparr>))
   \<and> (physicalDevice blankMemory = VK_NULL_HANDLE
   \<and> VK_NULL_HANDLE \<notin> set (physicalDevices (sampleHost\<lparr>physicalDevices := [41]\<rparr>))
   \<and> physicalDevices (sampleHost\<lparr>physicalDevices := [41]\<rparr>) \<noteq> []
   \<and> \<not> suitable (sampleHost\<lparr>physicalDevices := [41]\<rparr>) 41
   \<and> pickPhysicalDevice (sampleHost\<lparr>physicalDevices := [41]\<rparr>) blankMemory =
       (Inl NoSuitableDevice,
        blankMemory\<lparr>calls := [vkEnumeratePhysicalDevices 0, vkEnumeratePhysicalDevices 0,
                    vkGetPhysicalDeviceQueueFamilyProperties 41,
                    vkGetPhysicalDeviceQueueFamilyProperties 41]\<rparr>))"
proof -
  have found: "physicalDevice blankMemory = VK_NULL_HANDLE
   \<and> VK_NULL_HANDLE \<notin> set (physicalDevices sampleHost)
   \<and> physicalDevices sampleHost = [41, 42, 43]
   \<and> \<not> suitable sampleHost 41 \<and> suitable sampleHost 42 \<and> suitable sampleHost 43
   \<and> pickPhysicalDevice sampleHost blankMemory =
       (Inr (),
        blankMemory\<lparr>physicalDevice := 42,
          calls := [vkEnumeratePhysicalDevices 0, vkEnumeratePhysicalDevices 0,
                    vkGetPhysicalDeviceQueueFamilyProperties 41,
                    vkGetPhysicalDeviceQueueFamilyProperties 41,
                    vkGetPhysicalDeviceQueueFamilyProperties 42,
                    vkGetPhysicalDeviceQueueFamilyProperties 42]\<rparr>)"
  proof -
    have fresh: "physicalDevice blankMemory = VK_NULL_HANDLE"
      by (simp add: blankMemory_def VK_NULL_HANDLE_def)
    have valid: "VK_NULL_HANDLE \<notin> set (physicalDevices sampleHost)"
      by (simp add: sampleHost_def VK_NULL_HANDLE_def)
    have ds: "physicalDevices sampleHost = [41, 42, 43]" by (simp add: sampleHost_def)
    have k: "firstSuitable sampleHost [41, 42, 43] = 1"
      by (simp add: firstSuitable_def sample_suitable)
    have ex: "\<exists>d \<in> set (physicalDevices sampleHost). suitable sampleHost d"
      by (simp add: ds sample_suitable)
    from pickPhysicalDevice_first_suitable [OF fresh valid] ex
    have "pickPhysicalDevice sampleHost blankMemory =
        (Inr (),
         blankMemory\<lparr>physicalDevice :=
             physicalDevices sampleHost ! firstSuitable sampleHost (physicalDevices sampleHost),
           calls := calls blankMemory
             @ [vkEnumeratePhysicalDevices (instance' blankMemory),
                vkEnumeratePhysicalDevices (instance' blankMemory)]
             @ familyQueries
                 (take (Suc (firstSuitable sampleHost (physicalDevices sampleHost)))
                    (physicalDevices sampleHost))\<rparr>)"
      by blast
    then have "pickPhysicalDevice sampleHost blankMemory =
         (Inr (),
          blankMemory\<lparr>physicalDevice := 42,
            calls := [vkEnumeratePhysicalDevices 0, vkEnumeratePhysicalDevices 0,
                      vkGetPhysicalDeviceQueueFamilyProperties 41,
                      vkGetPhysicalDeviceQueueFamilyProperties 41,
                      vkGetPhysicalDeviceQueueFamilyProperties 42,
                      vkGetPhysicalDeviceQueueFamilyProperties 42]\<rparr>)"
      by (simp add: ds k familyQueries_def blankMemory_def)
    with fresh valid ds show ?thesis by (simp add: sample_suitable)
  qed
  have none: "physicalDevice blankMemory = VK_NULL_HANDLE
   \<and> VK_NULL_HANDLE \<notin> set (physicalDevices (sampleHost\<lparr>physicalDevices := [41]\<rparr>))
   \<and> physicalDevices (sampleHost\<lparr>physicalDevices := [41]\<rparr>) \<noteq> []
   \<and> \<not> suitable (sampleHost\<lparr>physicalDevices := [41]\<rparr>) 41
   \<and> pickPhysicalDevice (sampleHost\<lparr>physicalDevices := [41]\<rparr>) blankMemory =
       (Inl NoSuitableDevice,
        blankMemory\<lparr>calls := [vkEnumeratePhysicalDevices 0, vkEnumeratePhysicalDevices 0,
                    vkGetPhysicalDeviceQueueFamilyProperties 41,
                    vkGetPhysicalDeviceQueueFamilyProperties 41]\<rparr>)"
  proof -
    have fresh: "physicalDevice blankMemory = VK_NULL_HANDLE"
      by (simp add: blankMemory_def VK_NULL_HANDLE_def)
    have valid: "VK_NULL_HANDLE \<notin> set (physicalDevices (sampleHost\<lparr>physicalDevices := [41]\<rparr>))"
      by (simp add: VK_NULL_HANDLE_def)
    have u: "\<not> suitable (sampleHost\<lparr>physicalDevices := [41]\<rparr>) 41"
      using sample_suitable(1) by (simp add: suitable_def)
    from pickPhysicalDevice_first_suitable [OF fresh valid] u
    have "pickPhysicalDevice (sampleHost\<lparr>physicalDevices := [41]\<rparr>) blankMemory =
         (Inl NoSuitableDevice,
          blankMemory\<lparr>calls := [vkEnumeratePhysicalDevices 0, vkEnumeratePhysicalDevices 0,
                      vkGetPhysicalDeviceQueueFamilyProperties 41,
                      vkGetPhysicalDeviceQueueFamilyProperties 41]\<rparr>)"
      by (simp add: familyQueries_def blankMemory_def)
    with fresh valid u show ?thesis by simp
  qed
  from found none show ?thesis by blast
qed

section \<open>Layer and extension negotiation\<close>

lemma layerFound_iff: "layerFound name installed = (name \<in> layerName ` set installed)"
  by (induction installed) auto

lemma checkLayers_verdict:
  "fst (checkLayers requested installed) = (set requested \<subseteq> layerName ` set installed)"
  by (induction requested) (auto simp add: layerFound_iff split: prod.splits)

lemma checkLayers_looked:
  "snd (checkLayers requested installed) =
     take (Suc (length (takeWhile (\<lambda>name. name \<in> layerName ` set installed) requested)))
       requested"
  by (induction requested) (auto simp add: layerFound_iff split: prod.splits)

text \<open>
  C3. For every list of requested layer names and every list of installed layers, the layer
  check returns true if and only if every requested name equals (by exact, case-sensitive
  string comparison) the name of some installed layer, that is the requested names are a
  subset of the installed names. It looks the requested names up in order and stops at the
  first missing one. Removing a requested layer from the host (every installed entry of
  that name) makes the check false. The program's \<open>checkValidationLayerSupport\<close> is this
  check on \<open>validationLayers\<close>.
\<close>

theorem checkLayerSupport_subset:
  "fst (checkLayers requested installed) = (set requested \<subseteq> layerName ` set installed)
   \<and> snd (checkLayers requested installed) =
       take (Suc (length (takeWhile (\<lambda>name. name \<in> layerName ` set installed) requested)))
         requested
   \<and> (name \<in> set requested \<longrightarrow>
        \<not> fst (checkLayers requested (filter (\<lambda>p. layerName p \<noteq> name) installed)))
   \<and> fst (checkValidationLayerSupport e s) =
       (set validationLayers \<subseteq> layerName ` set (instanceLayerProperties e))
   \<and> \<not> fst (checkLayers [''VK_LAYER_KHRONOS_validation'']
              [khronosLayer\<lparr>layerName := ''vk_layer_khronos_validation''\<rparr>])"
proof (intro conjI impI)
  show "fst (checkLayers requested installed) = (set requested \<subseteq> layerName ` set installed)"
    by (rule checkLayers_verdict)
  show "snd (checkLayers requested installed) =
       take (Suc (length (takeWhile (\<lambda>name. name \<in> layerName ` set installed) requested)))
         requested"
    by (rule checkLayers_looked)
  show "fst (checkValidationLayerSupport e s) =
       (set validationLayers \<subseteq> layerName ` set (instanceLayerProperties e))"
    by (simp add: checkValidationLayerSupport_def Let_def checkLayers_verdict)
  show "\<not> fst (checkLayers [''VK_LAYER_KHRONOS_validation'']
              [khronosLayer\<lparr>layerName := ''vk_layer_khronos_validation''\<rparr>])"
    by simp
next
  assume "name \<in> set requested"
  then show "\<not> fst (checkLayers requested (filter (\<lambda>p. layerName p \<noteq> name) installed))"
    by (auto simp add: checkLayers_verdict)
qed

theorem checkLayerSupport_subset_witness:
  "''VK_LAYER_KHRONOS_validation'' \<in> set validationLayers
   \<and> fst (checkLayers validationLayers [khronosLayer])
   \<and> \<not> fst (checkLayers validationLayers
            (filter (\<lambda>p. layerName p \<noteq> ''VK_LAYER_KHRONOS_validation'') [khronosLayer]))"
proof -
  have m: "''VK_LAYER_KHRONOS_validation'' \<in> set validationLayers"
    by (simp add: validationLayers_def)
  from checkLayerSupport_subset [of validationLayers "[khronosLayer]"
      "''VK_LAYER_KHRONOS_validation''" sampleHost blankMemory] m
  show ?thesis by (simp add: validationLayers_def khronosLayer_def)
qed

text \<open>
  C4. \<open>getRequiredExtensions\<close> returns the extension list of the windowing collaborator
  unchanged (same order, duplicates kept) as a prefix, followed, exactly when diagnostics
  mode is enabled, by the debug-utilities extension and the two portability extension
  names; with diagnostics mode disabled the result is the windowing list itself.
\<close>

theorem getRequiredExtensions_prefix:
  "fst (getRequiredExtensions e s) =
     requiredInstanceExtensions e
       @ (if enableValidationLayers e
          then [''VK_EXT_debug_utils'', ''VK_KHR_portability_enumeration'',
                ''VK_KHR_get_physical_device_properties2'']
          else [])
   \<and> take (length (requiredInstanceExtensions e)) (fst (getRequiredExtensions e s))
       = requiredInstanceExtensions e
   \<and> (fst (getRequiredExtensions e s) = requiredInstanceExtensions e)
       = (\<not> enableValidationLayers e)"
  by (simp add: getRequiredExtensions_def Let_def VK_EXT_DEBUG_UTILS_EXTENSION_NAME_def
      VK_KHR_PORTABILITY_ENUMERATION_EXTENSION_NAME_def
      VK_KHR_GET_PHYSICAL_DEVICE_PROPERTIES_2_EXTENSION_NAME_def)

theorem getRequiredExtensions_prefix_witness:
  "fst (getRequiredExtensions
          (sampleHost\<lparr>requiredInstanceExtensions := [''VK_EXT_debug_utils'', ''VK_EXT_debug_utils'']\<rparr>)
          blankMemory)
     = [''VK_EXT_debug_utils'', ''VK_EXT_debug_utils'', ''VK_EXT_debug_utils'',
        ''VK_KHR_portability_enumeration'', ''VK_KHR_get_physical_device_properties2'']
   \<and> fst (getRequiredExtensions (sampleHost\<lparr>enableValidationLayers := False\<rparr>) blankMemory)
     = [''VK_KHR_surface'', ''VK_EXT_metal_surface'']"
  using getRequiredExtensions_prefix
      [of "sampleHost\<lparr>requiredInstanceExtensions := [''VK_EXT_debug_utils'', ''VK_EXT_debug_utils'']\<rparr>"
        blankMemory]
    getRequiredExtensions_prefix [of "sampleHost\<lparr>enableValidationLayers := False\<rparr>" blankMemory]
  by (simp add: sampleHost_def)

section \<open>The call log of a run\<close>

lemma acc_append [simp]:
  "acquired (a @ b) = acquired a @ acquired b"
  "released (a @ b) = released a @ released b"
  "lifetimes (a @ b) = lifetimes a @ lifetimes b"
  "attempted (a @ b) = attempted a @ attempted b"
  by (simp_all add: acquired_def released_def lifetimes_def attempted_def)

lemma acc_Nil [simp]:
  "acquired [] = []" "released [] = []" "lifetimes [] = []" "attempted [] = []"
  by (simp_all add: acquired_def released_def lifetimes_def attempted_def)

lemma acc_Cons [simp]:
  "acquired (c # tr) = acquires c @ acquired tr"
  "released (c # tr) = releases c @ released tr"
  "lifetimes (c # tr) = map Acquire (acquires c) @ map Release (releases c) @ lifetimes tr"
  "attempted (c # tr) = attempts c @ attempted tr"
  by (simp_all add: acquired_def released_def lifetimes_def attempted_def)

lemma acc_familyQueries [simp]:
  "acquired (familyQueries ds) = []" "released (familyQueries ds) = []"
  "lifetimes (familyQueries ds) = []" "attempted (familyQueries ds) = []"
  by (induction ds) (simp_all add: familyQueries_def)

lemma acc_idleCalls [simp]:
  "acquired (idleCalls w k) = []" "released (idleCalls w k) = []"
  "lifetimes (idleCalls w k) = []" "attempted (idleCalls w k) = []"
  by (induction k) simp_all

lemma initWindow_eq:
  "initWindow e s = s\<lparr>window := createdWindow e, calls := calls s @ windowCalls e\<rparr>"
  by (simp add: initWindow_def windowCalls_def log_def Let_def)

lemma createInstance_eq:
  "createInstance e s =
     (if enableValidationLayers e
         \<and> \<not> fst (checkLayers validationLayers (instanceLayerProperties e))
      then (Inl ConfigurationError,
            s\<lparr>calls := calls s @ [vkEnumerateInstanceLayerProperties,
                                    vkEnumerateInstanceLayerProperties]\<rparr>)
      else let tr = (if enableValidationLayers e
                     then [vkEnumerateInstanceLayerProperties,
                           vkEnumerateInstanceLayerProperties] else [])
                    @ [glfwGetRequiredInstanceExtensions,
                       vkCreateInstance (fst (getRequiredExtensions e s))
                         (if enableValidationLayers e then validationLayers else [])
                         (createInstanceResult e) (createdInstance e)]
           in if createInstanceResult e \<noteq> VK_SUCCESS
              then (Inl InstanceCreationFailed, s\<lparr>calls := calls s @ tr\<rparr>)
              else (Inr (), s\<lparr>instance' := createdInstance e, calls := calls s @ tr\<rparr>))"
  by (simp add: createInstance_def checkValidationLayerSupport_def getRequiredExtensions_def
      log_def Let_def)

lemma setupDebugMessenger_eq:
  "setupDebugMessenger e s =
     (if \<not> enableValidationLayers e then (Inr (), s)
      else if \<not> instanceProcAddr e ''vkCreateDebugUtilsMessengerEXT''
      then (Inl ExtensionUnavailable,
            s\<lparr>calls := calls s
                 @ [vkGetInstanceProcAddr (instance' s) ''vkCreateDebugUtilsMessengerEXT'']\<rparr>)
      else let tr = [vkGetInstanceProcAddr (instance' s) ''vkCreateDebugUtilsMessengerEXT'',
                     PFN_vkCreateDebugUtilsMessengerEXT (instance' s)
                       (createMessengerResult e) (createdMessenger e)]
           in if createMessengerResult e \<noteq> VK_SUCCESS
              then (Inl ExtensionUnavailable, s\<lparr>calls := calls s @ tr\<rparr>)
              else (Inr (), s\<lparr>debugMessenger := createdMessenger e, calls := calls s @ tr\<rparr>))"
  by (simp add: setupDebugMessenger_def CreateDebugUtilsMessengerEXT_def log_def Let_def
      VK_SUCCESS_def VK_ERROR_EXTENSION_NOT_PRESENT_def)

lemma createLogicalDevice_eq:
  "createLogicalDevice e s =
     (case graphicsFamily (fst (scanQueueFamilies (queueFamilyProperties e (physicalDevice s)) 0
                                  \<lparr>graphicsFamily = None\<rparr>)) of
        None \<Rightarrow> (Inl BadOptionalAccess,
                 s\<lparr>calls := calls s @ familyQueries [physicalDevice s]\<rparr>)
      | Some family \<Rightarrow>
          (let tr = familyQueries [physicalDevice s]
                    @ [vkCreateDevice (physicalDevice s) family
                         (if enableValidationLayers e
                          then [VK_KHR_PORTABILITY_SUBSET_EXTENSION_NAME] else [])
                         (if enableValidationLayers e then validationLayers else [])
                         (createDeviceResult e) (createdDevice e)]
           in if createDeviceResult e \<noteq> VK_SUCCESS
              then (Inl DeviceCreationFailed, s\<lparr>calls := calls s @ tr\<rparr>)
              else (Inr (),
                    s\<lparr>device := createdDevice e, graphicsQueue := deviceQueue e,
                      calls := calls s @ tr
                        @ [vkGetDeviceQueue (createdDevice e) family 0 (deviceQueue e)]\<rparr>)))"
  by (simp add: createLogicalDevice_def findQueueFamilies_eq log_def Let_def
      split: option.split)

lemma cleanup_eq:
  "cleanup e s =
     s\<lparr>calls := calls s @ [vkDestroyDevice (device s)]
        @ (if enableValidationLayers e
           then [vkGetInstanceProcAddr (instance' s) ''vkDestroyDebugUtilsMessengerEXT'']
                @ (if instanceProcAddr e ''vkDestroyDebugUtilsMessengerEXT''
                   then [PFN_vkDestroyDebugUtilsMessengerEXT (instance' s) (debugMessenger s)]
                   else [])
           else [])
        @ [vkDestroyInstance (instance' s), glfwDestroyWindow (window s), glfwTerminate]\<rparr>"
  by (simp add: cleanup_def DestroyDebugUtilsMessengerEXT_def log_def Let_def)

lemma mainLoop_returns:
  "(\<forall>j < k. \<not> windowShouldClose e (n + j)) \<Longrightarrow> windowShouldClose e (n + k) \<Longrightarrow>
   mainLoop e n s = Some (s\<lparr>calls := calls s @ idleCalls (window s) k\<rparr>)"
proof (induction k arbitrary: n s)
  case 0
  then show ?case by (subst mainLoop.simps) (simp add: log_def)
next
  case (Suc k)
  from Suc.prems(1) have now: "\<not> windowShouldClose e n" by force
  from Suc.prems(1) have later: "\<forall>j < k. \<not> windowShouldClose e (Suc n + j)" by force
  from Suc.prems(2) have close: "windowShouldClose e (Suc n + k)" by simp
  show ?case
    using now Suc.IH [OF later close]
    by (subst mainLoop.simps) (simp add: log_def)
qed

lemma mainLoop_Some:
  assumes "mainLoop e n s = Some s'"
  shows "\<exists>k. (\<forall>j < k. \<not> windowShouldClose e (n + j)) \<and> windowShouldClose e (n + k)
      \<and> s' = s\<lparr>calls := calls s @ idleCalls (window s) k\<rparr>"
proof (rule mainLoop.raw_induct
    [where P = "\<lambda>e n s s'. \<exists>k. (\<forall>j < k. \<not> windowShouldClose e (n + j))
        \<and> windowShouldClose e (n + k)
        \<and> s' = s\<lparr>calls := calls s @ idleCalls (window s) k\<rparr>", OF _ assms])
  fix f :: "env \<Rightarrow> nat \<Rightarrow> state \<Rightarrow> state option" and e n s s'
  assume IH: "\<And>e n s s'. f e n s = Some s' \<Longrightarrow>
      \<exists>k. (\<forall>j < k. \<not> windowShouldClose e (n + j)) \<and> windowShouldClose e (n + k)
        \<and> s' = s\<lparr>calls := calls s @ idleCalls (window s) k\<rparr>"
    and step: "(if \<not> windowShouldClose e n
      then f e (Suc n) (log glfwPollEvents (log (glfwWindowShouldClose (window s)) s))
      else Some (log (glfwWindowShouldClose (window s)) s)) = Some s'"
  show "\<exists>k. (\<forall>j < k. \<not> windowShouldClose e (n + j)) \<and> windowShouldClose e (n + k)
      \<and> s' = s\<lparr>calls := calls s @ idleCalls (window s) k\<rparr>"
  proof (cases "windowShouldClose e n")
    case True
    with step have "s' = s\<lparr>calls := calls s @ idleCalls (window s) 0\<rparr>"
      by (simp add: log_def)
    with True show ?thesis by (intro exI [of _ 0]) simp
  next
    case False
    with step
    have "f e (Suc n) (log glfwPollEvents (log (glfwWindowShouldClose (window s)) s)) = Some s'"
      by simp
    from IH [OF this] obtain k where
      k: "\<forall>j < k. \<not> windowShouldClose e (Suc n + j)" "windowShouldClose e (Suc n + k)"
      "s' = s\<lparr>calls := calls s @ idleCalls (window s) (Suc k)\<rparr>"
      by (auto simp add: log_def)
    have "\<forall>j < Suc k. \<not> windowShouldClose e (n + j)"
    proof (intro allI impI)
      fix j assume "j < Suc k"
      then show "\<not> windowShouldClose e (n + j)"
        using False k(1) by (cases j) auto
    qed
    with k show ?thesis by (intro exI [of _ "Suc k"]) simp
  qed
qed

lemma initVulkan_failure:
  assumes "physicalDevice s = VK_NULL_HANDLE" and "initVulkan e s = (Inl err, s1)"
  shows "released (calls s1) = released (calls s)
       \<and> (\<exists>tried. attempted (calls s1) = attempted (calls s) @ tried \<and> distinct tried
             \<and> CreatesWindow \<notin> set tried)
       \<and> err \<noteq> BadOptionalAccess"
  using assms suitable_held [of e "physicalDevices e ! firstSuitable e (physicalDevices e)"]
    firstSuitable_hit [of e "physicalDevices e"]
  unfolding initVulkan_def and_then_def
  by (auto simp add: createInstance_eq setupDebugMessenger_eq pickPhysicalDevice_eq
      pickLoop_eq createLogicalDevice_eq Let_def split: if_splits option.splits)

lemma initVulkan_success:
  assumes "initVulkan e s = (Inr u, s1)"
  shows "lifetimes (calls s1) = lifetimes (calls s) @ [Acquire (Instance (createdInstance e))]
           @ (if enableValidationLayers e
              then [Acquire (DiagnosticsChannel (createdMessenger e))] else [])
           @ [Acquire (LogicalDevice (createdDevice e))]
       \<and> window s1 = window s \<and> instance' s1 = createdInstance e
       \<and> device s1 = createdDevice e
       \<and> (enableValidationLayers e \<longrightarrow> debugMessenger s1 = createdMessenger e)"
  using assms
  unfolding initVulkan_def and_then_def
  by (auto simp add: createInstance_eq setupDebugMessenger_eq pickPhysicalDevice_eq
      pickLoop_eq createLogicalDevice_eq Let_def split: if_splits option.splits)

lemma initVulkan_acquired:
  assumes "initVulkan e s = (Inr u, s1)"
  shows "acquired (calls s1) = acquired (calls s) @ [Instance (createdInstance e)]
           @ (if enableValidationLayers e then [DiagnosticsChannel (createdMessenger e)] else [])
           @ [LogicalDevice (createdDevice e)]
       \<and> released (calls s1) = released (calls s)"
  using assms
  unfolding initVulkan_def and_then_def
  by (auto simp add: createInstance_eq setupDebugMessenger_eq pickPhysicalDevice_eq
      pickLoop_eq createLogicalDevice_eq Let_def split: if_splits option.splits)

lemma initVulkan_resolved:
  assumes "initVulkan e s = (Inr u, s1)" and "enableValidationLayers e"
  shows "instanceProcAddr e ''vkCreateDebugUtilsMessengerEXT''"
  using assms
  unfolding initVulkan_def and_then_def
  by (auto simp add: createInstance_eq setupDebugMessenger_eq Let_def split: if_splits)

lemma initVulkan_succeeds:
  assumes "physicalDevice s = VK_NULL_HANDLE"
      and "enableValidationLayers e \<longrightarrow>
             fst (checkLayers validationLayers (instanceLayerProperties e))
           \<and> instanceProcAddr e ''vkCreateDebugUtilsMessengerEXT''
           \<and> createMessengerResult e = VK_SUCCESS"
      and "createInstanceResult e = VK_SUCCESS"
      and "\<exists>d \<in> set (physicalDevices e). suitable e d"
      and "VK_NULL_HANDLE \<notin> set (physicalDevices e)"
      and "createDeviceResult e = VK_SUCCESS"
  shows "\<exists>s1. initVulkan e s = (Inr (), s1)"
proof -
  let ?ds = "physicalDevices e"
  from assms(4) have less: "firstSuitable e ?ds < length ?ds" by (simp add: firstSuitable_less)
  then have "?ds ! firstSuitable e ?ds \<in> set ?ds" by simp
  with assms(5) have nonnull: "?ds ! firstSuitable e ?ds \<noteq> VK_NULL_HANDLE" by metis
  from less have ne: "?ds \<noteq> []" by auto
  from suitable_held [OF firstSuitable_hit [OF less]] obtain family
    where "graphicsFamily (fst (scanQueueFamilies (queueFamilyProperties e (?ds ! firstSuitable e ?ds)) 0
                 \<lparr>graphicsFamily = None\<rparr>)) = Some family" ..
  with assms(1,2,3,6) less nonnull ne show ?thesis
    unfolding initVulkan_def and_then_def
    by (simp add: createInstance_eq setupDebugMessenger_eq pickPhysicalDevice_eq
        pickLoop_eq createLogicalDevice_eq Let_def)
qed

lemma run_failure:
  "initVulkan e (initWindow e s) = (Inl err, s1) \<Longrightarrow> run e s = Some (Inl err, s1)"
  by (simp add: run_def)

lemma run_failure_iff:
  "run e s = Some (Inl err, s1) \<longleftrightarrow> initVulkan e (initWindow e s) = (Inl err, s1)"
  by (auto simp add: run_def split: prod.splits sum.splits option.splits)

lemma run_normal:
  assumes "initVulkan e (initWindow e s) = (Inr u, s1)"
      and "\<forall>j < k. \<not> windowShouldClose e j" and "windowShouldClose e k"
  shows "run e s = Some (Inr (), cleanup e (s1\<lparr>calls := calls s1 @ idleCalls (window s1) k\<rparr>))"
  using assms mainLoop_returns [of k e 0 s1] by (simp add: run_def)

lemma run_normal_cases:
  assumes "run e s = Some (Inr u, s')"
  obtains s1 k where "initVulkan e (initWindow e s) = (Inr (), s1)"
    and "s' = cleanup e (s1\<lparr>calls := calls s1 @ idleCalls (window s1) k\<rparr>)"
proof -
  from assms obtain s1 s2 where iv: "initVulkan e (initWindow e s) = (Inr (), s1)"
      and ml: "mainLoop e 0 s1 = Some s2" and s': "s' = cleanup e s2"
    by (auto simp add: run_def split: prod.splits sum.splits option.splits)
  from mainLoop_Some [OF ml] obtain k
    where "s2 = s1\<lparr>calls := calls s1 @ idleCalls (window s1) k\<rparr>" by blast
  with iv s' that show thesis by simp
qed

lemma main_failure:
  "run e (newApplication memory) = Some (Inl err, s) \<Longrightarrow>
   main e memory = Some (EXIT_FAILURE, what err @ [CHR 0x0A], calls s)"
  by (simp add: main_def)

lemma main_success:
  "run e (newApplication memory) = Some (Inr u, s) \<Longrightarrow>
   main e memory = Some (EXIT_SUCCESS, [], calls s)"
  by (simp add: main_def)

lemma normal_exit_accounting:
  assumes "run e (newApplication memory) = Some (Inr u, s')"
  shows "lifetimes (calls s') =
           [Acquire WindowSystem, Acquire (Window (createdWindow e)),
            Acquire (Instance (createdInstance e))]
           @ (if enableValidationLayers e
              then [Acquire (DiagnosticsChannel (createdMessenger e))] else [])
           @ [Acquire (LogicalDevice (createdDevice e)),
              Release (LogicalDevice (createdDevice e))]
           @ (if enableValidationLayers e \<and> instanceProcAddr e ''vkDestroyDebugUtilsMessengerEXT''
              then [Release (DiagnosticsChannel (createdMessenger e))] else [])
           @ [Release (Instance (createdInstance e)), Release (Window (createdWindow e)),
              Release WindowSystem]"
    and "acquired (calls s') =
           [WindowSystem, Window (createdWindow e), Instance (createdInstance e)]
           @ (if enableValidationLayers e then [DiagnosticsChannel (createdMessenger e)] else [])
           @ [LogicalDevice (createdDevice e)]"
    and "released (calls s') =
           [LogicalDevice (createdDevice e)]
           @ (if enableValidationLayers e \<and> instanceProcAddr e ''vkDestroyDebugUtilsMessengerEXT''
              then [DiagnosticsChannel (createdMessenger e)] else [])
           @ [Instance (createdInstance e), Window (createdWindow e), WindowSystem]"
proof -
  from assms obtain s1 k
    where iv: "initVulkan e (initWindow e (newApplication memory)) = (Inr (), s1)"
      and s': "s' = cleanup e (s1\<lparr>calls := calls s1 @ idleCalls (window s1) k\<rparr>)"
    by (rule run_normal_cases)
  have w: "calls (initWindow e (newApplication memory)) = windowCalls e"
      "window (initWindow e (newApplication memory)) = createdWindow e"
    by (simp_all add: initWindow_eq newApplication_def)
  from initVulkan_success [OF iv] w
  have l: "lifetimes (calls s1) =
        [Acquire WindowSystem, Acquire (Window (createdWindow e)),
         Acquire (Instance (createdInstance e))]
        @ (if enableValidationLayers e
           then [Acquire (DiagnosticsChannel (createdMessenger e))] else [])
        @ [Acquire (LogicalDevice (createdDevice e))]"
    and f: "window s1 = createdWindow e" "instance' s1 = createdInstance e"
      "device s1 = createdDevice e"
      "enableValidationLayers e \<longrightarrow> debugMessenger s1 = createdMessenger e"
    by (simp_all add: windowCalls_def)
  from initVulkan_acquired [OF iv] w
  have a: "acquired (calls s1) =
        [WindowSystem, Window (createdWindow e), Instance (createdInstance e)]
        @ (if enableValidationLayers e then [DiagnosticsChannel (createdMessenger e)] else [])
        @ [LogicalDevice (createdDevice e)]"
    and r: "released (calls s1) = []"
    by (simp_all add: windowCalls_def)
  from l f show "lifetimes (calls s') =
           [Acquire WindowSystem, Acquire (Window (createdWindow e)),
            Acquire (Instance (createdInstance e))]
           @ (if enableValidationLayers e
              then [Acquire (DiagnosticsChannel (createdMessenger e))] else [])
           @ [Acquire (LogicalDevice (createdDevice e)),
              Release (LogicalDevice (createdDevice e))]
           @ (if enableValidationLayers e \<and> instanceProcAddr e ''vkDestroyDebugUtilsMessengerEXT''
              then [Release (DiagnosticsChannel (createdMessenger e))] else [])
           @ [Release (Instance (createdInstance e)), Release (Window (createdWindow e)),
              Release WindowSystem]"
    by (simp add: s' cleanup_eq)
  from a f show "acquired (calls s') =
           [WindowSystem, Window (createdWindow e), Instance (createdInstance e)]
           @ (if enableValidationLayers e then [DiagnosticsChannel (createdMessenger e)] else [])
           @ [LogicalDevice (createdDevice e)]"
    by (simp add: s' cleanup_eq)
  from r f show "released (calls s') =
           [LogicalDevice (createdDevice e)]
           @ (if enableValidationLayers e \<and> instanceProcAddr e ''vkDestroyDebugUtilsMessengerEXT''
              then [DiagnosticsChannel (createdMessenger e)] else [])
           @ [Instance (createdInstance e), Window (createdWindow e), WindowSystem]"
    by (simp add: s' cleanup_eq)
qed

lemma sampleHost_exits:
  "\<exists>s'. run sampleHost (newApplication blankMemory) = Some (Inr (), s')"
proof -
  have "\<exists>s1. initVulkan sampleHost (initWindow sampleHost (newApplication blankMemory))
      = (Inr (), s1)"
  proof (rule initVulkan_succeeds)
    show "physicalDevice (initWindow sampleHost (newApplication blankMemory)) = VK_NULL_HANDLE"
      by (simp add: initWindow_eq newApplication_def)
    show "enableValidationLayers sampleHost \<longrightarrow>
             fst (checkLayers validationLayers (instanceLayerProperties sampleHost))
           \<and> instanceProcAddr sampleHost ''vkCreateDebugUtilsMessengerEXT''
           \<and> createMessengerResult sampleHost = VK_SUCCESS"
      by (simp add: sampleHost_def validationLayers_def khronosLayer_def)
    show "createInstanceResult sampleHost = VK_SUCCESS"
      by (simp add: sampleHost_def)
    show "\<exists>d \<in> set (physicalDevices sampleHost). suitable sampleHost d"
      using sample_suitable(2) by (simp add: sampleHost_def)
    show "VK_NULL_HANDLE \<notin> set (physicalDevices sampleHost)"
      by (simp add: sampleHost_def VK_NULL_HANDLE_def)
    show "createDeviceResult sampleHost = VK_SUCCESS"
      by (simp add: sampleHost_def)
  qed
  then obtain s1
    where iv: "initVulkan sampleHost (initWindow sampleHost (newApplication blankMemory))
      = (Inr (), s1)" ..
  have "\<forall>j < 2. \<not> windowShouldClose sampleHost j" "windowShouldClose sampleHost 2"
    by (simp_all add: sampleHost_def)
  from run_normal [OF iv this] show ?thesis by blast
qed

lemma rejectingHost_boot:
  "initVulkan rejectingHost (initWindow rejectingHost (newApplication blankMemory)) =
     (Inl DeviceCreationFailed,
      blankMemory\<lparr>window := 10, instance' := 20, debugMessenger := 30,
        physicalDevice := 42, calls := rejectedCalls\<rparr>)"
proof -
  have s: "suitable rejectingHost = suitable sampleHost"
    by (simp add: fun_eq_iff suitable_def rejectingHost_def)
  have k: "firstSuitable rejectingHost [41, 42, 43] = 1"
    using sample_firstSuitable by (simp add: firstSuitable_def s)
  have t: "queueFamilyProperties rejectingHost 42
      = [computeFamily, graphicsFamilyA, graphicsFamilyB]"
    by (simp add: rejectingHost_def sample_tables)
  have f: "enableValidationLayers rejectingHost"
    "instanceLayerProperties rejectingHost = [khronosLayer]"
    "requiredInstanceExtensions rejectingHost = [''VK_KHR_surface'', ''VK_EXT_metal_surface'']"
    "createInstanceResult rejectingHost = 0" "createdInstance rejectingHost = 20"
    "instanceProcAddr rejectingHost ''vkCreateDebugUtilsMessengerEXT''"
    "createMessengerResult rejectingHost = 0" "createdMessenger rejectingHost = 30"
    "physicalDevices rejectingHost = [41, 42, 43]" "createDeviceResult rejectingHost = - 3"
    "createdDevice rejectingHost = 50" "createdWindow rejectingHost = 10"
    by (simp_all add: rejectingHost_def sampleHost_def VK_SUCCESS_def)
  show ?thesis
    unfolding initVulkan_def and_then_def
    by (simp add: createInstance_eq setupDebugMessenger_eq pickPhysicalDevice_eq
        pickLoop_eq createLogicalDevice_eq getRequiredExtensions_def initWindow_eq
        newApplication_def windowCalls_def Let_def f k t sample_scan familyQueries_def
        validationLayers_def khronosLayer_def VK_SUCCESS_def VK_NULL_HANDLE_def WIDTH_def
        HEIGHT_def VK_EXT_DEBUG_UTILS_EXTENSION_NAME_def
        VK_KHR_PORTABILITY_ENUMERATION_EXTENSION_NAME_def
        VK_KHR_GET_PHYSICAL_DEVICE_PROPERTIES_2_EXTENSION_NAME_def
        VK_KHR_PORTABILITY_SUBSET_EXTENSION_NAME_def blankMemory_def rejectedCalls_def
        del: scanQueueFamilies.simps)
qed

lemma emptyHost_boot:
  "initVulkan emptyHost (initWindow emptyHost (newApplication blankMemory)) =
     (Inl NoDeviceFound,
      blankMemory\<lparr>window := 10, instance' := 20, debugMessenger := 30,
        calls := emptyHostCalls\<rparr>)"
proof -
  have f: "enableValidationLayers emptyHost"
    "instanceLayerProperties emptyHost = [khronosLayer]"
    "requiredInstanceExtensions emptyHost = [''VK_KHR_surface'', ''VK_EXT_metal_surface'']"
    "createInstanceResult emptyHost = 0" "createdInstance emptyHost = 20"
    "instanceProcAddr emptyHost ''vkCreateDebugUtilsMessengerEXT''"
    "createMessengerResult emptyHost = 0" "createdMessenger emptyHost = 30"
    "physicalDevices emptyHost = []" "createdWindow emptyHost = 10"
    by (simp_all add: emptyHost_def sampleHost_def VK_SUCCESS_def)
  show ?thesis
    unfolding initVulkan_def and_then_def
    by (simp add: createInstance_eq setupDebugMessenger_eq pickPhysicalDevice_eq
        getRequiredExtensions_def initWindow_eq
        newApplication_def windowCalls_def Let_def f
        validationLayers_def khronosLayer_def VK_SUCCESS_def VK_NULL_HANDLE_def WIDTH_def
        HEIGHT_def VK_EXT_DEBUG_UTILS_EXTENSION_NAME_def
        VK_KHR_PORTABILITY_ENUMERATION_EXTENSION_NAME_def
        VK_KHR_GET_PHYSICAL_DEVICE_PROPERTIES_2_EXTENSION_NAME_def
        blankMemory_def emptyHostCalls_def)
qed

section \<open>Failures of the bootstrap\<close>

text \<open>
  C5. If diagnostics mode is enabled and the layer check fails, \<open>createInstance\<close> throws
  the configuration error having made only the two layer enumeration calls:
  \<open>vkCreateInstance\<close> is not called and no instance handle exists. The program then
  exits with the failure code, and the only resources acquired are the windowing ones.
\<close>

theorem createInstance_layers_unavailable:
  assumes "enableValidationLayers e" and "\<not> fst (checkValidationLayerSupport e s)"
  shows "createInstance e s =
           (Inl ConfigurationError,
            s\<lparr>calls := calls s @ [vkEnumerateInstanceLayerProperties,
                                    vkEnumerateInstanceLayerProperties]\<rparr>)
       \<and> main e memory =
           Some (EXIT_FAILURE, what ConfigurationError @ [CHR 0x0A],
                 windowCalls e @ [vkEnumerateInstanceLayerProperties,
                                  vkEnumerateInstanceLayerProperties])
       \<and> acquired (windowCalls e @ [vkEnumerateInstanceLayerProperties,
                                    vkEnumerateInstanceLayerProperties])
           = [WindowSystem, Window (createdWindow e)]"
proof -
  from assms(2) have missing: "\<not> fst (checkLayers validationLayers (instanceLayerProperties e))"
    by (simp add: checkValidationLayerSupport_def Let_def)
  with assms(1) have c: "createInstance e s =
           (Inl ConfigurationError,
            s\<lparr>calls := calls s @ [vkEnumerateInstanceLayerProperties,
                                    vkEnumerateInstanceLayerProperties]\<rparr>)"
    by (simp add: createInstance_eq)
  from assms(1) missing have "run e (newApplication memory) =
      Some (Inl ConfigurationError,
            (initWindow e (newApplication memory))
              \<lparr>calls := calls (initWindow e (newApplication memory))
                 @ [vkEnumerateInstanceLayerProperties, vkEnumerateInstanceLayerProperties]\<rparr>)"
    by (simp add: run_def initVulkan_def and_then_def createInstance_eq)
  then have m: "main e memory =
           Some (EXIT_FAILURE, what ConfigurationError @ [CHR 0x0A],
                 windowCalls e @ [vkEnumerateInstanceLayerProperties,
                                  vkEnumerateInstanceLayerProperties])"
    by (simp add: main_def initWindow_eq newApplication_def)
  have "acquired (windowCalls e @ [vkEnumerateInstanceLayerProperties,
                                    vkEnumerateInstanceLayerProperties])
           = [WindowSystem, Window (createdWindow e)]"
    by (simp add: windowCalls_def)
  with c m show ?thesis by simp
qed

theorem createInstance_layers_unavailable_witness:
  "enableValidationLayers (sampleHost\<lparr>instanceLayerProperties := []\<rparr>)
   \<and> \<not> fst (checkValidationLayerSupport (sampleHost\<lparr>instanceLayerProperties := []\<rparr>) blankMemory)
   \<and> createInstance (sampleHost\<lparr>instanceLayerProperties := []\<rparr>) blankMemory =
       (Inl ConfigurationError,
        blankMemory\<lparr>calls := [vkEnumerateInstanceLayerProperties,
                                vkEnumerateInstanceLayerProperties]\<rparr>)
   \<and> main (sampleHost\<lparr>instanceLayerProperties := []\<rparr>) blankMemory =
       Some (1, ''validation layers requested, but not available!'' @ [CHR 0x0A],
             [glfwInit, glfwWindowHint ''GLFW_CLIENT_API'' ''GLFW_NO_API'',
              glfwWindowHint ''GLFW_RESIZABLE'' ''GLFW_FALSE'',
              glfwCreateWindow 800 600 ''Vulkan'' 10,
              vkEnumerateInstanceLayerProperties, vkEnumerateInstanceLayerProperties])"
proof -
  have en: "enableValidationLayers (sampleHost\<lparr>instanceLayerProperties := []\<rparr>)"
    by (simp add: sampleHost_def)
  have miss: "\<not> fst (checkValidationLayerSupport (sampleHost\<lparr>instanceLayerProperties := []\<rparr>)
                    blankMemory)"
    by (simp add: checkValidationLayerSupport_def Let_def validationLayers_def)
  from createInstance_layers_unavailable [OF en miss, of blankMemory] en miss
  show ?thesis
    by (simp add: windowCalls_def sampleHost_def blankMemory_def EXIT_FAILURE_def WIDTH_def
        HEIGHT_def)
qed

text \<open>
  C6. If the driver reports no device, \<open>pickPhysicalDevice\<close> throws \<open>NoDeviceFound\<close>
  having made the count query only. So once the instance (and the diagnostics channel) exist,
  \<open>initVulkan\<close> ends there; and whatever the earlier steps did, the program exits with the
  failure code and its call log holds no call on a device: no queue-family query, no
  device creation, no queue retrieval.
\<close>

theorem pickPhysicalDevice_no_devices:
  assumes "physicalDevices e = []"
  shows "pickPhysicalDevice e s =
           (Inl NoDeviceFound,
            s\<lparr>calls := calls s @ [vkEnumeratePhysicalDevices (instance' s)]\<rparr>)
       \<and> (\<forall>s0 s2. and_then (createInstance e s0) (setupDebugMessenger e) = (Inr (), s2) \<longrightarrow>
            initVulkan e s0 =
              (Inl NoDeviceFound,
               s2\<lparr>calls := calls s2 @ [vkEnumeratePhysicalDevices (instance' s2)]\<rparr>))
       \<and> (\<exists>err tr. main e memory = Some (EXIT_FAILURE, what err @ [CHR 0x0A], tr)
             \<and> err \<in> {ConfigurationError, InstanceCreationFailed, ExtensionUnavailable,
                       NoDeviceFound}
             \<and> filter deviceCall tr = [])"
proof (intro conjI allI impI)
  show p: "pickPhysicalDevice e s =
           (Inl NoDeviceFound,
            s\<lparr>calls := calls s @ [vkEnumeratePhysicalDevices (instance' s)]\<rparr>)" for s
    using assms by (simp add: pickPhysicalDevice_eq)
  fix s0 s2
  assume "and_then (createInstance e s0) (setupDebugMessenger e) = (Inr (), s2)"
  then show "initVulkan e s0 =
              (Inl NoDeviceFound,
               s2\<lparr>calls := calls s2 @ [vkEnumeratePhysicalDevices (instance' s2)]\<rparr>)"
    using p [of s2] by (simp add: initVulkan_def and_then_def)
next
  obtain r s1 where iv: "initVulkan e (initWindow e (newApplication memory)) = (r, s1)"
    by (cases "initVulkan e (initWindow e (newApplication memory))")
  with assms have "(\<exists>err. r = Inl err
        \<and> err \<in> {ConfigurationError, InstanceCreationFailed, ExtensionUnavailable,
                  NoDeviceFound})
      \<and> filter deviceCall (calls s1) = []"
    unfolding initVulkan_def and_then_def
    by (auto simp add: createInstance_eq setupDebugMessenger_eq pickPhysicalDevice_eq
        initWindow_eq newApplication_def windowCalls_def Let_def split: if_splits)
  then obtain err where "r = Inl err"
      and e: "err \<in> {ConfigurationError, InstanceCreationFailed, ExtensionUnavailable,
                     NoDeviceFound}"
      and d: "filter deviceCall (calls s1) = []"
    by blast
  with iv have "run e (newApplication memory) = Some (Inl err, s1)" by (simp add: run_failure)
  from main_failure [OF this] e d
  show "\<exists>err tr. main e memory = Some (EXIT_FAILURE, what err @ [CHR 0x0A], tr)
             \<and> err \<in> {ConfigurationError, InstanceCreationFailed, ExtensionUnavailable,
                       NoDeviceFound}
             \<and> filter deviceCall tr = []"
    by blast
qed

theorem pickPhysicalDevice_no_devices_witness:
  "physicalDevices emptyHost = []
   \<and> pickPhysicalDevice emptyHost (blankMemory\<lparr>instance' := 20\<rparr>) =
       (Inl NoDeviceFound, blankMemory\<lparr>instance' := 20, calls := [vkEnumeratePhysicalDevices 20]\<rparr>)
   \<and> main emptyHost blankMemory =
       Some (1, ''failed to find GPUs with Vulkan support!'' @ [CHR 0x0A], emptyHostCalls)
   \<and> filter deviceCall emptyHostCalls = []"
proof -
  have h: "physicalDevices emptyHost = []" by (simp add: emptyHost_def)
  from pickPhysicalDevice_no_devices [OF h, of "blankMemory\<lparr>instance' := 20\<rparr>" blankMemory]
  have p: "pickPhysicalDevice emptyHost (blankMemory\<lparr>instance' := 20\<rparr>) =
       (Inl NoDeviceFound, blankMemory\<lparr>instance' := 20, calls := [vkEnumeratePhysicalDevices 20]\<rparr>)"
    by (simp add: blankMemory_def)
  from main_failure [OF run_failure [OF emptyHost_boot]]
  have m: "main emptyHost blankMemory =
       Some (1, ''failed to find GPUs with Vulkan support!'' @ [CHR 0x0A], emptyHostCalls)"
    by (simp add: EXIT_FAILURE_def)
  have d: "filter deviceCall emptyHostCalls = []" by (simp add: emptyHostCalls_def)
  from h p m d show ?thesis by simp
qed

text \<open>
  C9. When \<open>pickPhysicalDevice\<close> returns, on an application that had no device selected,
  the retained device makes \<open>findQueueFamilies\<close> complete, so \<open>createLogicalDevice\<close>
  does not throw at \<open>graphicsFamily.value()\<close>. \<open>isDeviceSuitable\<close> is the completeness
  of \<open>findQueueFamilies\<close>, whose result depends on the device's table only, not on when it
  is called. No run of the program ends with that exception.
\<close>

theorem graphicsFamily_value_safe:
  assumes "physicalDevice s = VK_NULL_HANDLE" and "pickPhysicalDevice e s = (Inr u, s1)"
  shows "isComplete (fst (findQueueFamilies e (physicalDevice s1) s1))
       \<and> fst (createLogicalDevice e s1) \<noteq> Inl BadOptionalAccess
       \<and> (\<forall>d t t'. fst (isDeviceSuitable e d t) = isComplete (fst (findQueueFamilies e d t')))
       \<and> (\<forall>s'. run e (newApplication memory) \<noteq> Some (Inl BadOptionalAccess, s'))"
proof (intro conjI allI)
  from assms have suit: "suitable e (physicalDevice s1)" by (rule pick_returns_suitable)
  then show "isComplete (fst (findQueueFamilies e (physicalDevice s1) s1))"
    by (simp add: findQueueFamilies_eq scan_complete suitable_def)
  from suitable_held [OF suit] show "fst (createLogicalDevice e s1) \<noteq> Inl BadOptionalAccess"
    by (auto simp add: createLogicalDevice_eq Let_def split: if_splits)
next
  fix d t t'
  show "fst (isDeviceSuitable e d t) = isComplete (fst (findQueueFamilies e d t'))"
    by (simp add: isDeviceSuitable_def findQueueFamilies_eq split_def)
next
  fix s'
  show "run e (newApplication memory) \<noteq> Some (Inl BadOptionalAccess, s')"
  proof
    assume "run e (newApplication memory) = Some (Inl BadOptionalAccess, s')"
    then have iv: "initVulkan e (initWindow e (newApplication memory))
        = (Inl BadOptionalAccess, s')"
      by (simp add: run_failure_iff)
    have fresh: "physicalDevice (initWindow e (newApplication memory)) = VK_NULL_HANDLE"
      by (simp add: initWindow_eq newApplication_def)
    from initVulkan_failure [OF fresh iv] show False by simp
  qed
qed

theorem graphicsFamily_value_safe_witness:
  "physicalDevice blankMemory = VK_NULL_HANDLE
   \<and> fst (pickPhysicalDevice sampleHost blankMemory) = Inr ()
   \<and> physicalDevice (snd (pickPhysicalDevice sampleHost blankMemory)) = 42
   \<and> isComplete (fst (findQueueFamilies sampleHost 42
                         (snd (pickPhysicalDevice sampleHost blankMemory))))
   \<and> fst (createLogicalDevice sampleHost (snd (pickPhysicalDevice sampleHost blankMemory)))
       \<noteq> Inl BadOptionalAccess"
proof -
  have fresh: "physicalDevice blankMemory = VK_NULL_HANDLE"
    by (simp add: blankMemory_def VK_NULL_HANDLE_def)
  from graphicsFamily_value_safe [OF fresh sample_pick, of blankMemory] fresh
  show ?thesis by (simp add: sample_pick)
qed

text \<open>
  C8. When the bootstrap throws, the error is one of the six errors of the taxonomy and the
  run ends with it: nothing is called after the throwing step, so up to the end the
  program has released nothing and has made each creating call at most once; \<open>main\<close>
  writes the error's message and a newline to \<open>std::cerr\<close> and returns \<open>EXIT_FAILURE\<close>,
  which is not zero. A run that exits normally returns \<open>EXIT_SUCCESS\<close>, which is zero,
  and \<open>main\<close> writes nothing.
\<close>

theorem bootstrap_errors_fatal:
  "(initVulkan e (initWindow e (newApplication memory)) = (Inl err, s) \<longrightarrow>
      run e (newApplication memory) = Some (Inl err, s)
    \<and> main e memory = Some (EXIT_FAILURE, what err @ [CHR 0x0A], calls s)
    \<and> EXIT_FAILURE \<noteq> 0
    \<and> err \<in> {ConfigurationError, InstanceCreationFailed, ExtensionUnavailable, NoDeviceFound,
              NoSuitableDevice, DeviceCreationFailed}
    \<and> released (calls s) = []
    \<and> distinct (attempted (calls s)))
   \<and> (run e (newApplication memory) = Some (Inr u, s) \<longrightarrow>
        main e memory = Some (EXIT_SUCCESS, [], calls s) \<and> EXIT_SUCCESS = 0)"
proof (intro conjI impI)
  assume iv: "initVulkan e (initWindow e (newApplication memory)) = (Inl err, s)"
  then show r: "run e (newApplication memory) = Some (Inl err, s)"
    by (rule run_failure)
  then show "main e memory = Some (EXIT_FAILURE, what err @ [CHR 0x0A], calls s)"
    by (rule main_failure)
  show "EXIT_FAILURE \<noteq> 0" by (simp add: EXIT_FAILURE_def)
  have fresh: "physicalDevice (initWindow e (newApplication memory)) = VK_NULL_HANDLE"
    by (simp add: initWindow_eq newApplication_def)
  have w: "calls (initWindow e (newApplication memory)) = windowCalls e"
    by (simp add: initWindow_eq newApplication_def)
  from initVulkan_failure [OF fresh iv] w obtain tried
    where rel: "released (calls s) = released (windowCalls e)"
      and att: "attempted (calls s) = attempted (windowCalls e) @ tried"
        "distinct tried" "CreatesWindow \<notin> set tried"
      and boa: "err \<noteq> BadOptionalAccess"
    by auto
  from boa show "err \<in> {ConfigurationError, InstanceCreationFailed, ExtensionUnavailable,
      NoDeviceFound, NoSuitableDevice, DeviceCreationFailed}"
    by (cases err) simp_all
  from rel show "released (calls s) = []" by (simp add: windowCalls_def)
  from att show "distinct (attempted (calls s))" by (simp add: windowCalls_def)
next
  assume "run e (newApplication memory) = Some (Inr u, s)"
  then show "main e memory = Some (EXIT_SUCCESS, [], calls s)" by (rule main_success)
  show "EXIT_SUCCESS = 0" by (simp add: EXIT_SUCCESS_def)
qed

theorem bootstrap_errors_fatal_witness:
  "initVulkan rejectingHost (initWindow rejectingHost (newApplication blankMemory)) =
     (Inl DeviceCreationFailed,
      blankMemory\<lparr>window := 10, instance' := 20, debugMessenger := 30,
        physicalDevice := 42, calls := rejectedCalls\<rparr>)
   \<and> main rejectingHost blankMemory =
       Some (1, ''failed to create logical device!'' @ [CHR 0x0A], rejectedCalls)
   \<and> acquired rejectedCalls = [WindowSystem, Window 10, Instance 20, DiagnosticsChannel 30]
   \<and> released rejectedCalls = []
   \<and> distinct (attempted rejectedCalls)
   \<and> (\<exists>s. run sampleHost (newApplication blankMemory) = Some (Inr (), s)
          \<and> main sampleHost blankMemory = Some (0, [], calls s))"
proof -
  from bootstrap_errors_fatal [of rejectingHost blankMemory DeviceCreationFailed
      "blankMemory\<lparr>window := 10, instance' := 20, debugMessenger := 30,
         physicalDevice := 42, calls := rejectedCalls\<rparr>" "()"]
    rejectingHost_boot
  have a: "main rejectingHost blankMemory =
      Some (1, ''failed to create logical device!'' @ [CHR 0x0A], rejectedCalls)
    \<and> released rejectedCalls = [] \<and> distinct (attempted rejectedCalls)"
    by (simp add: EXIT_FAILURE_def)
  have b: "acquired rejectedCalls
      = [WindowSystem, Window 10, Instance 20, DiagnosticsChannel 30]"
    by (simp add: rejectedCalls_def VK_SUCCESS_def)
  from sampleHost_exits obtain s
    where r: "run sampleHost (newApplication blankMemory) = Some (Inr (), s)" ..
  with bootstrap_errors_fatal [of sampleHost blankMemory DeviceCreationFailed s "()"]
  have "main sampleHost blankMemory = Some (0, [], calls s)"
    by (simp add: EXIT_SUCCESS_def)
  with a b r rejectingHost_boot show ?thesis by blast
qed

section \<open>Teardown\<close>

text \<open>
  C7. The two control entry points of the diagnostics channel belong to one extension of
  the runtime, which resolves both of them or neither. On such a runtime, on every normal
  exit the teardown releases the handles that were created in the exact reverse of their
  creation order: the logical device first, then the diagnostics channel (it was created
  exactly when diagnostics mode is enabled), then the instance, then the window and the
  windowing library. Every created handle is released, and the lifetimes are nested: each
  handle is released while everything created after it is already released.
\<close>

theorem teardown_reverse_order:
  assumes "run e (newApplication memory) = Some (Inr u, s')"
      and "instanceProcAddr e ''vkCreateDebugUtilsMessengerEXT''
             = instanceProcAddr e ''vkDestroyDebugUtilsMessengerEXT''"
  shows "released (calls s') =
           [LogicalDevice (createdDevice e)]
           @ (if enableValidationLayers e then [DiagnosticsChannel (createdMessenger e)] else [])
           @ [Instance (createdInstance e), Window (createdWindow e), WindowSystem]
       \<and> acquired (calls s') =
           [WindowSystem, Window (createdWindow e), Instance (createdInstance e)]
           @ (if enableValidationLayers e then [DiagnosticsChannel (createdMessenger e)] else [])
           @ [LogicalDevice (createdDevice e)]
       \<and> released (calls s') = rev (acquired (calls s'))
       \<and> wellNested [] (lifetimes (calls s'))"
proof -
  from assms(1) obtain s1 k
    where iv: "initVulkan e (initWindow e (newApplication memory)) = (Inr (), s1)"
    by (rule run_normal_cases)
  have resolves: "instanceProcAddr e ''vkDestroyDebugUtilsMessengerEXT''"
    if "enableValidationLayers e"
    using initVulkan_resolved [OF iv that] assms(2) by simp
  note acc = normal_exit_accounting [OF assms(1)]
  show ?thesis
  proof (cases "enableValidationLayers e")
    case True
    with resolves acc show ?thesis by simp
  next
    case False
    with acc show ?thesis by simp
  qed
qed

theorem teardown_reverse_order_witness:
  "\<exists>s'. run sampleHost (newApplication blankMemory) = Some (Inr (), s')
     \<and> instanceProcAddr sampleHost ''vkCreateDebugUtilsMessengerEXT''
         = instanceProcAddr sampleHost ''vkDestroyDebugUtilsMessengerEXT''
     \<and> enableValidationLayers sampleHost
     \<and> acquired (calls s') =
         [WindowSystem, Window 10, Instance 20, DiagnosticsChannel 30, LogicalDevice 50]
     \<and> released (calls s') =
         [LogicalDevice 50, DiagnosticsChannel 30, Instance 20, Window 10, WindowSystem]
     \<and> released (calls s') = rev (acquired (calls s'))
     \<and> wellNested [] (lifetimes (calls s'))"
proof -
  from sampleHost_exits obtain s'
    where r: "run sampleHost (newApplication blankMemory) = Some (Inr (), s')" ..
  have p: "instanceProcAddr sampleHost ''vkCreateDebugUtilsMessengerEXT''
      = instanceProcAddr sampleHost ''vkDestroyDebugUtilsMessengerEXT''"
    by (simp add: sampleHost_def)
  have f: "enableValidationLayers sampleHost"
      "createdWindow sampleHost = 10" "createdInstance sampleHost = 20"
      "createdMessenger sampleHost = 30" "createdDevice sampleHost = 50"
    by (simp_all add: sampleHost_def)
  from teardown_reverse_order [OF r p] f
  have "acquired (calls s') =
         [WindowSystem, Window 10, Instance 20, DiagnosticsChannel 30, LogicalDevice 50]
     \<and> released (calls s') =
         [LogicalDevice 50, DiagnosticsChannel 30, Instance 20, Window 10, WindowSystem]
     \<and> released (calls s') = rev (acquired (calls s'))
     \<and> wellNested [] (lifetimes (calls s'))"
    by simp
  with r p f show ?thesis by blast
qed

end
